theory Spec2Isabelle
  imports Main "HOL-Library.Sublist"
begin

section \<open>Lookup table utilities of the fluid contrib package\<close>

text \<open>
  A shallow embedding of \<^verbatim>\<open>python/paddle/fluid/contrib/utils/lookup_table_utils.py\<close>.
  The program graph the utilities mutate in place is passed through the functions as a value;
  every Python exception is a value of type \<open>error\<close> on the left of a sum.
\<close>

subsection \<open>Python values\<close>

datatype error =
  TypeError | IndexError | KeyError | ValueError | IOError | OSError | EnforceNotMet

text \<open>\<^verbatim>\<open>xs[i]\<close> on a Python list: a negative index counts from the end, anything
  outside \<open>-len .. len - 1\<close> raises IndexError.\<close>

definition getitem :: "'a list \<Rightarrow> int \<Rightarrow> error + 'a" where
  "getitem xs i =
     (if 0 \<le> i \<and> i < int (length xs) then Inr (xs ! nat i)
      else if i < 0 \<and> - int (length xs) \<le> i then Inr (xs ! nat (int (length xs) + i))
      else Inl IndexError)"

text \<open>Sequencing: an exception raised by the first step leaves through every later one.\<close>

definition and_then :: "error + 'a \<Rightarrow> ('a \<Rightarrow> error + 'b) \<Rightarrow> error + 'b" where
  "and_then m f = (case m of Inl e \<Rightarrow> Inl e | Inr x \<Rightarrow> f x)"

lemma and_then_cong [fundef_cong]:
  "m = m' \<Longrightarrow> (\<And>x. m' = Inr x \<Longrightarrow> f x = f' x) \<Longrightarrow> and_then m f = and_then m' f'"
  by (cases m') (simp_all add: and_then_def)

lemma and_then_Inl [simp]: "and_then (Inl e) f = Inl e"
  by (simp add: and_then_def)

lemma and_then_Inr [simp]: "and_then (Inr x) f = f x"
  by (simp add: and_then_def)

text \<open>\<^verbatim>\<open>range(start, stop, -1)\<close>.\<close>

function range_desc :: "int \<Rightarrow> int \<Rightarrow> int list" where
  "range_desc start stop =
     (if stop < start then start # range_desc (start - 1) stop else [])"
  by pat_completeness auto
termination
  by (relation "measure (\<lambda>(start, stop). nat (start - stop))") auto

text \<open>\<^verbatim>\<open>sub in s\<close> on Python strings: \<open>sub\<close> occurs in \<open>s\<close> as a contiguous piece.\<close>

fun str_contains :: "string \<Rightarrow> string \<Rightarrow> bool" where
  "str_contains sub [] = (sub = [])"
| "str_contains sub (c # cs) = (prefix sub (c # cs) \<or> str_contains sub cs)"

text \<open>\<^verbatim>\<open>"{}_{}".format(s, i)\<close> needs the decimal numeral of a list position.\<close>

definition digit_char :: "nat \<Rightarrow> char" where
  "digit_char d = char_of (48 + d)"

fun str_of_nat :: "nat \<Rightarrow> string" where
  "str_of_nat n = (if n < 10 then [digit_char n] else str_of_nat (n div 10) @ [digit_char (n mod 10)])"

declare str_of_nat.simps [simp del]

text \<open>\<^verbatim>\<open>os.path.join(a, b)\<close> of posixpath, for two components.\<close>

definition path_join :: "string \<Rightarrow> string \<Rightarrow> string" where
  "path_join a b =
     (if prefix ''/'' b then b
      else if a = [] \<or> suffix ''/'' a then a @ b
      else a @ ''/'' @ b)"

subsection \<open>The program graph\<close>

text \<open>The members of \<^verbatim>\<open>core.VarDesc.VarType\<close> that the module names; every other
  member of the enumeration, which the framework declares outside this module, is
  \<open>OTHER_TYPE\<close> with its enumeration number.\<close>

datatype VarType =
  LOD_TENSOR | SELECTED_ROWS | FEED_MINIBATCH | FETCH_LIST | RAW | OTHER_TYPE nat

record Variable =
  name :: string
  shape :: "int list"
  dtype :: VarType
  vtype :: VarType
  persistable :: bool

datatype attr = ABool bool | AStr string

text \<open>An operator node: its type, the variable names bound to each named input and
  output slot (the framework stores names, also when the caller passes Variable objects), and
  the attributes that the code which built the node has set. Attributes that the framework
  fills in by itself (the defaults of the operator type, the operator's role) are left out.\<close>

record Operator =
  op_type :: string
  inputs :: "(string \<times> string list) list"
  outputs :: "(string \<times> string list) list"
  attrs :: "(string \<times> attr) list"

text \<open>A block: its variables (\<^verbatim>\<open>Block.vars\<close>, an ordered dictionary keyed by the variable's
  name, kept here as the list of its values) and its operators (\<^verbatim>\<open>Block.ops\<close>).\<close>

record Block =
  vars :: "Variable list"
  ops :: "Operator list"

text \<open>A program always has its global block (block 0); \<open>distributed_lookup_table\<close> is the
  attribute \<^verbatim>\<open>_distributed_lookup_table\<close>, None or the table's name.\<close>

record Program =
  distributed_lookup_table :: "string option"
  version :: int
  global_block :: Block
  sub_blocks :: "Block list"

subsection \<open>Framework operations on blocks\<close>

text \<open>Dictionary access on \<^verbatim>\<open>Block.vars\<close>: \<^verbatim>\<open>vars[k]\<close> (KeyError on a missing key),
  \<^verbatim>\<open>vars[k] = v\<close> (in place when the key is present, at the end otherwise) and
  \<^verbatim>\<open>del vars[k]\<close>.\<close>

definition find_var :: "Variable list \<Rightarrow> string \<Rightarrow> Variable option" where
  "find_var vs k = find (\<lambda>v. name v = k) vs"

definition vars_getitem :: "Block \<Rightarrow> string \<Rightarrow> error + Variable" where
  "vars_getitem b k = (case find_var (vars b) k of None \<Rightarrow> Inl KeyError | Some v \<Rightarrow> Inr v)"

fun set_var :: "Variable list \<Rightarrow> Variable \<Rightarrow> Variable list" where
  "set_var [] v = [v]"
| "set_var (x # xs) v = (if name x = name v then v # xs else x # set_var xs v)"

definition del_var :: "Variable list \<Rightarrow> string \<Rightarrow> Variable list" where
  "del_var vs k = filter (\<lambda>v. name v \<noteq> k) vs"

text \<open>Modelled from the spec: \<^verbatim>\<open>Block.var(name)\<close> is framework code outside this module. It
  is the checked accessor of a variable of the program graph: the variable of that name in
  this block, ValueError when the block has none.\<close>

definition var :: "Block \<Rightarrow> string \<Rightarrow> error + Variable" where
  "var b k = (case find_var (vars b) k of None \<Rightarrow> Inl ValueError | Some v \<Rightarrow> Inr v)"

text \<open>Modelled from the spec: \<^verbatim>\<open>Operator.input(slot)\<close> and \<^verbatim>\<open>Operator.output(slot)\<close> are
  framework code outside this module. They read the variable names bound to a slot of an
  operator node; a slot the node does not have is refused by the framework.\<close>

definition input :: "Operator \<Rightarrow> string \<Rightarrow> error + string list" where
  "input opr slot = (case map_of (inputs opr) slot of None \<Rightarrow> Inl EnforceNotMet | Some xs \<Rightarrow> Inr xs)"

definition output' :: "Operator \<Rightarrow> string \<Rightarrow> error + string list" where
  "output' opr slot = (case map_of (outputs opr) slot of None \<Rightarrow> Inl EnforceNotMet | Some xs \<Rightarrow> Inr xs)"

text \<open>Modelled from the spec: \<^verbatim>\<open>Block._rename_var(name, new_name)\<close> is framework code
  outside this module; the spec names the mutation (renaming variables of the program graph).
  The variable keeps its descriptor under the new name, in the variable table and in every
  operator argument that refers to it; ValueError when the block has no such variable.\<close>

definition rename_args :: "string \<Rightarrow> string \<Rightarrow> (string \<times> string list) list \<Rightarrow> (string \<times> string list) list" where
  "rename_args old new slots = map (\<lambda>(slot, xs). (slot, map (\<lambda>x. if x = old then new else x) xs)) slots"

definition rename_op :: "string \<Rightarrow> string \<Rightarrow> Operator \<Rightarrow> Operator" where
  "rename_op old new opr =
     opr\<lparr>inputs := rename_args old new (inputs opr), outputs := rename_args old new (outputs opr)\<rparr>"

definition rename_var :: "Block \<Rightarrow> string \<Rightarrow> string \<Rightarrow> error + Block" where
  "rename_var b old new =
     (case find_var (vars b) old of
        None \<Rightarrow> Inl ValueError
      | Some v \<Rightarrow>
          Inr (b\<lparr>vars := del_var (set_var (vars b) (v\<lparr>name := new\<rparr>)) old,
                 ops := map (rename_op old new) (ops b)\<rparr>))"

text \<open>Modelled from the spec: \<^verbatim>\<open>Block.create_var(name, shape, dtype, type, persistable)\<close>
  is framework code outside this module; it enters a variable descriptor into the block (the
  module only calls it with a name the block does not hold).\<close>

definition create_var :: "Block \<Rightarrow> Variable \<Rightarrow> Block" where
  "create_var b v = b\<lparr>vars := set_var (vars b) v\<rparr>"

text \<open>Modelled from the spec: \<^verbatim>\<open>Block._remove_op(index)\<close> and
  \<^verbatim>\<open>Block._insert_op(index, type, inputs, outputs, attrs)\<close> are framework code outside this
  module; the spec names the mutations (removing and inserting operator nodes). The index is a
  position of the operator list. It is passed to the block descriptor of the framework core
  as an unsigned size, which refuses a negative number (TypeError), and then to the Python
  list of the block's operators: removal needs an existing position (IndexError otherwise),
  insertion a position up to the end of the list.

  The node that is inserted is built by the framework's Operator class from the registered
  description (the proto) of the operator type: of the attributes given in the call, the node
  carries those that the proto declares, in the order of the proto, and no other. Which
  attribute names the proto of an operator type declares is decided by the framework core;
  here it is a parameter, the registry \<open>protos\<close>.\<close>

type_synonym OpProtos = "string \<Rightarrow> string list"

definition kept_attrs :: "OpProtos \<Rightarrow> string \<Rightarrow> (string \<times> attr) list \<Rightarrow> (string \<times> attr) list" where
  "kept_attrs protos ty given =
     concat (map (\<lambda>k. case map_of given k of None \<Rightarrow> [] | Some v \<Rightarrow> [(k, v)]) (protos ty))"

definition remove_op :: "Block \<Rightarrow> int \<Rightarrow> error + Block" where
  "remove_op b idx =
     (if idx < 0 then Inl TypeError
      else if int (length (ops b)) \<le> idx then Inl IndexError
      else Inr (b\<lparr>ops := take (nat idx) (ops b) @ drop (Suc (nat idx)) (ops b)\<rparr>))"

definition insert_op :: "OpProtos \<Rightarrow> Block \<Rightarrow> int \<Rightarrow> Operator \<Rightarrow> error + Block" where
  "insert_op protos b idx opr =
     (if idx < 0 then Inl TypeError
      else if int (length (ops b)) < idx then Inl IndexError
      else Inr (b\<lparr>ops := take (nat idx) (ops b) @
                          opr\<lparr>attrs := kept_attrs protos (op_type opr) (attrs opr)\<rparr> #
                          drop (nat idx) (ops b)\<rparr>))"

text \<open>Modelled from the spec: \<^verbatim>\<open>Block.append_op(type, inputs, outputs, attrs)\<close> is framework
  code outside this module; it adds the node at the end of the operator list. The attribute
  that the module passes to it, \<^verbatim>\<open>file_path\<close> of a load operator, is declared by the
  operator's proto and carried by the node.\<close>

definition append_op :: "Block \<Rightarrow> Operator \<Rightarrow> Block" where
  "append_op b opr = b\<lparr>ops := ops b @ [opr]\<rparr>"

subsection \<open>convert\_dist\_to\_sparse\_program\<close>

text \<open>The conversion mutates the program in place. A step of it yields the program as the
  step leaves it, together with what the step raised or returned: an exception leaves the
  function with the program as it is at that point.\<close>

definition or_raise ::
  "error + 'a \<Rightarrow> Program \<Rightarrow> ('a \<Rightarrow> Program \<times> (error + 'b)) \<Rightarrow> Program \<times> (error + 'b)" where
  "or_raise m program f = (case m of Inl e \<Rightarrow> (program, Inl e) | Inr x \<Rightarrow> f x)"

definition and_next ::
  "Program \<times> (error + 'a) \<Rightarrow> (Program \<Rightarrow> 'a \<Rightarrow> Program \<times> (error + 'b)) \<Rightarrow>
     Program \<times> (error + 'b)" where
  "and_next r f = (case snd r of Inl e \<Rightarrow> (fst r, Inl e) | Inr x \<Rightarrow> f (fst r) x)"

lemma or_raise_cong [fundef_cong]:
  "m = m' \<Longrightarrow> program = program' \<Longrightarrow> (\<And>x. m' = Inr x \<Longrightarrow> f x = f' x) \<Longrightarrow>
     or_raise m program f = or_raise m' program' f'"
  by (cases m') (simp_all add: or_raise_def)

lemma and_next_cong [fundef_cong]:
  "r = r' \<Longrightarrow> (\<And>x. snd r' = Inr x \<Longrightarrow> f (fst r') x = f' (fst r') x) \<Longrightarrow>
     and_next r f = and_next r' f'"
  by (cases "snd r'") (simp_all add: and_next_def)

lemma or_raise_Inl [simp]: "or_raise (Inl e) program f = (program, Inl e)"
  by (simp add: or_raise_def)

lemma or_raise_Inr [simp]: "or_raise (Inr x) program f = f x"
  by (simp add: or_raise_def)

lemma and_next_Inl [simp]: "and_next (program, Inl e) f = (program, Inl e)"
  by (simp add: and_next_def)

lemma and_next_Inr [simp]: "and_next (program, Inr x) f = f program x"
  by (simp add: and_next_def)

text \<open>The operator as \<^verbatim>\<open>__insert_lookup_sparse_table_op\<close> passes it to \<^verbatim>\<open>_insert_op\<close>.\<close>

definition lookup_sparse_table_op :: "Variable \<Rightarrow> Variable \<Rightarrow> Variable \<Rightarrow> Operator" where
  "lookup_sparse_table_op ids w out =
     \<lparr>op_type = ''lookup_sparse_table'',
      inputs = [(''Ids'', [name ids]), (''W'', [name w])],
      outputs = [(''Out'', [name out])],
      attrs = [(''is_distributed'', ABool False), (''is_sparse'', ABool True),
               (''grad_inplace'', ABool False)]\<rparr>"

definition insert_lookup_sparse_table_op ::
  "OpProtos \<Rightarrow> Program \<Rightarrow> int \<Rightarrow> Variable \<Rightarrow> Variable \<Rightarrow> Variable \<Rightarrow> Program \<times> (error + unit)" where
  "insert_lookup_sparse_table_op protos main_program idx ids w out =
     or_raise (insert_op protos (global_block main_program) idx (lookup_sparse_table_op ids w out))
       main_program (\<lambda>b. (main_program\<lparr>global_block := b\<rparr>, Inr ()))"

type_synonym prefetch_op_tuple = "int \<times> string list \<times> string list \<times> string list"

text \<open>The tuple built at a matching index \<open>i\<close>: the operators are read at \<open>i - 1\<close>,
  \<open>i\<close> and \<open>i + 1\<close> with Python's indexing.\<close>

definition prefetch_tuple_at :: "Operator list \<Rightarrow> nat \<Rightarrow> error + prefetch_op_tuple option" where
  "prefetch_tuple_at gops i =
     and_then (getitem gops (int i - 1)) (\<lambda>split_op.
     and_then (input split_op ''Ids'') (\<lambda>split_ids_inputs.
     and_then (getitem gops (int i)) (\<lambda>prefetch_op.
     and_then (input prefetch_op ''X'') (\<lambda>prefetch_op_inputs.
     and_then (output' prefetch_op ''Out'') (\<lambda>prefetch_op_outputs.
     and_then (getitem gops (int i + 1)) (\<lambda>merge_op.
     and_then (output' merge_op ''Out'') (\<lambda>merge_ids_outputs.
     Inr (Some (int i - 1, split_ids_inputs, merge_ids_outputs,
                prefetch_op_inputs @ prefetch_op_outputs)))))))))"

text \<open>The loop \<^verbatim>\<open>for i in range(len(op_types))\<close> of \<^verbatim>\<open>__get_prefetch_op_tuples\<close>, over
  the indices still to visit. \<^verbatim>\<open>op_types[i - 1]\<close> at \<open>i = 0\<close> reads the last element;
  \<^verbatim>\<open>op_types[i + 1]\<close> is read only when the operator before is a split\_ids, and raises
  IndexError past the end. The first match leaves the loop.\<close>

fun prefetch_loop :: "Operator list \<Rightarrow> nat list \<Rightarrow> error + prefetch_op_tuple option" where
  "prefetch_loop gops [] = Inr None"
| "prefetch_loop gops (i # rest) =
     and_then (getitem (map op_type gops) (int i)) (\<lambda>t.
       if t = ''prefetch'' then
         and_then (getitem (map op_type gops) (int i - 1)) (\<lambda>t_prev.
           if t_prev = ''split_ids'' then
             and_then (getitem (map op_type gops) (int i + 1)) (\<lambda>t_next.
               if t_next = ''merge_ids'' then prefetch_tuple_at gops i
               else prefetch_loop gops rest)
           else prefetch_loop gops rest)
       else prefetch_loop gops rest)"

definition get_prefetch_op_tuples :: "Program \<Rightarrow> error + prefetch_op_tuple option" where
  "get_prefetch_op_tuples main_program =
     prefetch_loop (ops (global_block main_program))
       [0 ..< length (ops (global_block main_program))]"

text \<open>\<^verbatim>\<open>for idx in ...: program.global_block()._remove_op(idx)\<close>.\<close>

fun remove_ops :: "Program \<Rightarrow> int list \<Rightarrow> Program \<times> (error + unit)" where
  "remove_ops program [] = (program, Inr ())"
| "remove_ops program (idx # rest) =
     or_raise (remove_op (global_block program) idx) program
       (\<lambda>b. remove_ops (program\<lparr>global_block := b\<rparr>) rest)"

text \<open>\<^verbatim>\<open>for in_out_pair in in_out_pairs: ...\<close>: both variables are looked up in the
  block's dictionary, then the operator is inserted at \<open>idx\<close>.\<close>

fun insert_pairs ::
  "OpProtos \<Rightarrow> Program \<Rightarrow> int \<Rightarrow> Variable \<Rightarrow> (string \<times> string) list \<Rightarrow> Program \<times> (error + unit)" where
  "insert_pairs protos program idx param_var [] = (program, Inr ())"
| "insert_pairs protos program idx param_var (in_out_pair # rest) =
     or_raise (vars_getitem (global_block program) (fst in_out_pair)) program (\<lambda>ids.
     or_raise (vars_getitem (global_block program) (snd in_out_pair)) program (\<lambda>out.
     and_next (insert_lookup_sparse_table_op protos program idx ids param_var out) (\<lambda>program' u.
     insert_pairs protos program' idx param_var rest)))"

text \<open>The first half of \<^verbatim>\<open>convert_dist_to_sparse_program\<close>: the table variable is renamed
  and a SELECTED\_ROWS variable is created under its old name. The step returns the new
  variable \<^verbatim>\<open>param_var\<close>.\<close>

definition make_sparse_table :: "Program \<Rightarrow> string \<Rightarrow> Program \<times> (error + Variable)" where
  "make_sparse_table program emb_var =
     or_raise (rename_var (global_block program) emb_var (emb_var @ ''.origin'')) program (\<lambda>b.
     or_raise (vars_getitem b (emb_var @ ''.origin'')) (program\<lparr>global_block := b\<rparr>)
       (\<lambda>origin_param_var.
     let param_var = \<lparr>name = emb_var, shape = shape origin_param_var,
                      dtype = dtype origin_param_var, vtype = SELECTED_ROWS,
                      persistable = True\<rparr>
     in (program\<lparr>global_block := create_var b param_var\<rparr>, Inr param_var)))"

text \<open>The second half: the three operators are removed and the lookup operators inserted.
  Subscripting the None that \<^verbatim>\<open>__get_prefetch_op_tuples\<close> may return raises TypeError.\<close>

definition replace_prefetch_ops :: "OpProtos \<Rightarrow> Program \<Rightarrow> Variable \<Rightarrow> Program \<times> (error + unit)" where
  "replace_prefetch_ops protos program param_var =
     or_raise (get_prefetch_op_tuples program) program (\<lambda>prefetch_op_tuples.
       case prefetch_op_tuples of
         None \<Rightarrow> (program, Inl TypeError)
       | Some (split_ids_id, split_ids_inputs, merge_ids_outputs, need_delete_vars) \<Rightarrow>
           and_next (remove_ops program (range_desc (split_ids_id + 2) (split_ids_id - 1)))
             (\<lambda>program2 u. insert_pairs protos program2 split_ids_id param_var
                              (zip split_ids_inputs merge_ids_outputs)))"

text \<open>The result is the program as the call leaves it and what the call raised or returned:
  \<open>Inr None\<close> when the function returns None (no table to convert: the attribute is None or
  the empty string), \<open>Inr (Some p)\<close> when it returns the program, which is the object it was
  given, in the state \<open>p\<close> in which the call leaves it. The calls \<^verbatim>\<open>_sync_with_cpp()\<close> and
  \<^verbatim>\<open>desc.flush()\<close> bring the two representations of the program in line and change nothing
  here, where there is one.\<close>

definition convert_dist_to_sparse_program ::
  "OpProtos \<Rightarrow> Program \<Rightarrow> Program \<times> (error + Program option)" where
  "convert_dist_to_sparse_program protos program =
     (case distributed_lookup_table program of
        None \<Rightarrow> (program, Inr None)
      | Some emb_var \<Rightarrow>
          if emb_var = [] then (program, Inr None)
          else
            and_next (make_sparse_table program emb_var) (\<lambda>program1 param_var.
            and_next (replace_prefetch_ops protos program1 param_var) (\<lambda>program3 u.
            (program3, Inr (Some program3)))))"

subsection \<open>The world around the loaders\<close>

text \<open>What the loaders observe of the operating system and of the framework core is a
  parameter: the answers of \<^verbatim>\<open>os.path.isdir\<close>, \<^verbatim>\<open>os.path.exists\<close>, \<^verbatim>\<open>os.listdir\<close> (OSError
  on a path that cannot be listed) and of reading a file opened with \<^verbatim>\<open>open(path, "rb")\<close>
  (IOError on a path that cannot be opened), the parser \<^verbatim>\<open>Program.parse_from_string\<close>, the
  test \<^verbatim>\<open>core._is_program_version_supported\<close>, and the version that a program made with
  \<^verbatim>\<open>Program()\<close> carries.\<close>

record Environment =
  isdir :: "string \<Rightarrow> bool"
  exists :: "string \<Rightarrow> bool"
  listdir :: "string \<Rightarrow> error + string list"
  read_file :: "string \<Rightarrow> error + string"
  parse_from_string :: "string \<Rightarrow> error + Program"
  is_program_version_supported :: "int \<Rightarrow> bool"
  current_version :: int

text \<open>The executor is the list of the programs it has run, oldest first:
  \<^verbatim>\<open>executor.run(program)\<close> adds one.\<close>

type_synonym Executor = "Program list"

definition run :: "Executor \<Rightarrow> Program \<Rightarrow> Executor" where
  "run executor program = executor @ [program]"

text \<open>\<^verbatim>\<open>Program()\<close>: no lookup table, an empty global block.\<close>

definition new_Program :: "Environment \<Rightarrow> Program" where
  "new_Program env =
     \<lparr>distributed_lookup_table = None, version = current_version env,
      global_block = \<lparr>vars = [], ops = []\<rparr>, sub_blocks = []\<rparr>"

text \<open>The value passed as \<^verbatim>\<open>program\<close>: a Program (which is truthy), or another object,
  falsy (None) or truthy.\<close>

datatype program_arg = AProgram Program | FalsyObject | TruthyObject

text \<open>\<^verbatim>\<open>block.append_op(type='load', inputs={}, outputs={'Out': [var]},
  attrs={'file_path': path})\<close>.\<close>

definition load_op :: "Variable \<Rightarrow> string \<Rightarrow> Operator" where
  "load_op out file_path =
     \<lparr>op_type = ''load'', inputs = [], outputs = [(''Out'', [name out])],
      attrs = [(''file_path'', AStr file_path)]\<rparr>"

text \<open>Modelled from the spec: \<^verbatim>\<open>Program.list_vars()\<close> and \<^verbatim>\<open>io.load_vars(executor, dirname,
  main_program, predicate, filename=None)\<close> are framework code outside this module; the spec
  names them as the framework-provided load operators that the module invokes on a
  checkpoint directory. \<open>list_vars\<close> are the variables of all blocks; \<open>load_vars\<close> builds a
  program with one load operator for each of them that the predicate accepts, reading the
  file of the variable's name in \<open>dirname\<close>, and runs it on the executor.\<close>

definition list_vars :: "Program \<Rightarrow> Variable list" where
  "list_vars program = concat (map vars (global_block program # sub_blocks program))"

definition load_vars_program :: "Environment \<Rightarrow> string \<Rightarrow> Variable list \<Rightarrow> Program" where
  "load_vars_program env dirname vs =
     (new_Program env)\<lparr>global_block :=
        \<lparr>vars = vs, ops = map (\<lambda>v. load_op v (path_join dirname (name v))) vs\<rparr>\<rparr>"

definition load_vars ::
  "Environment \<Rightarrow> Executor \<Rightarrow> string \<Rightarrow> Program \<Rightarrow> (Variable \<Rightarrow> bool) \<Rightarrow> Executor" where
  "load_vars env executor dirname main_program predicate =
     run executor (load_vars_program env dirname (filter predicate (list_vars main_program)))"

subsection \<open>\_load\_persistable\_vars\<close>

text \<open>The inner function \<^verbatim>\<open>is_valid\<close> of \<^verbatim>\<open>_is_checkpoint_var\<close>, with the list
  \<^verbatim>\<open>exclude_fluid_vars\<close> it closes over.\<close>

definition is_valid :: "string list \<Rightarrow> Variable \<Rightarrow> bool" where
  "is_valid exclude_fluid_vars v =
     (if vtype v = FEED_MINIBATCH \<or> vtype v = FETCH_LIST \<or> vtype v = RAW then False
      else if str_contains ''@GRAD'' (name v) then False
      else if str_contains ''.trainer_'' (name v) then False
      else if str_contains ''.block'' (name v) then False
      else if str_contains ''tmp_'' (name v) then False
      else if name v \<in> set exclude_fluid_vars then False
      else persistable v)"

definition is_checkpoint_var :: "string list option \<Rightarrow> Variable \<Rightarrow> bool" where
  "is_checkpoint_var exclude_fluid_vars =
     is_valid (case exclude_fluid_vars of None \<Rightarrow> [] | Some names \<Rightarrow> names)"

definition load_persistable_vars ::
  "Environment \<Rightarrow> Executor \<Rightarrow> string \<Rightarrow> Program \<Rightarrow> string list \<Rightarrow> Executor" where
  "load_persistable_vars env executor dirname program lookup_table_vars =
     load_vars env executor dirname program (is_checkpoint_var (Some lookup_table_vars))"

subsection \<open>load\_persistables\_for\_increment\<close>

text \<open>The inner function \<^verbatim>\<open>__load_lookup_table_vars\<close> of the increment loader.\<close>

definition load_lookup_table_var ::
  "Environment \<Rightarrow> Executor \<Rightarrow> Program \<Rightarrow> string \<Rightarrow> string \<Rightarrow> Executor \<times> (error + unit)" where
  "load_lookup_table_var env executor main_program lookup_table_var lookup_table_var_path =
     (case var (global_block main_program) lookup_table_var of
        Inl e \<Rightarrow> (executor, Inl e)
      | Inr emb_var \<Rightarrow>
          (run executor
             ((new_Program env)\<lparr>global_block :=
                append_op (global_block (new_Program env))
                  (load_op emb_var lookup_table_var_path)\<rparr>),
           Inr ()))"

text \<open>The result is the executor after the call and what the call raised or returned
  (None). The program is not touched.\<close>

definition load_persistables_for_increment ::
  "Environment \<Rightarrow> string \<Rightarrow> Executor \<Rightarrow> program_arg \<Rightarrow> string \<Rightarrow> string \<Rightarrow>
     Executor \<times> (error + unit)" where
  "load_persistables_for_increment env dirname executor program lookup_table_var
       lookup_table_var_path =
     (if \<not> isdir env dirname then (executor, Inl ValueError)
      else if \<not> exists env lookup_table_var_path then (executor, Inl ValueError)
      else
        (case program of
           AProgram p \<Rightarrow>
             load_lookup_table_var env
               (load_persistable_vars env executor dirname p [lookup_table_var])
               p lookup_table_var lookup_table_var_path
         | _ \<Rightarrow> (executor, Inl ValueError)))"

subsection \<open>load\_persistables\_for\_inference\<close>

text \<open>The loop \<^verbatim>\<open>for i, emb_file in enumerate(emb_files)\<close>: the global block and the list
  \<^verbatim>\<open>sums\<close> are the state; \<open>i\<close> is the index of the next file. The temporary variable
  and the file read are both named \<^verbatim>\<open>"{}_{}".format(emb_var.name, i)\<close>.\<close>

fun load_shards ::
  "Block \<Rightarrow> Variable \<Rightarrow> string \<Rightarrow> nat \<Rightarrow> string list \<Rightarrow> Variable list \<Rightarrow> Block \<times> Variable list" where
  "load_shards block emb_var lookup_table_dirname i [] sums = (block, sums)"
| "load_shards block emb_var lookup_table_dirname i (emb_file # rest) sums =
     (let var_name = name emb_var @ ''_'' @ str_of_nat i;
          param_var = \<lparr>name = var_name, shape = shape emb_var, dtype = dtype emb_var,
                       vtype = SELECTED_ROWS, persistable = True\<rparr>;
          block1 = create_var block param_var;
          block2 = append_op block1
                     (load_op param_var (path_join lookup_table_dirname var_name))
      in load_shards block2 emb_var lookup_table_dirname (Suc i) rest (sums @ [param_var]))"

text \<open>Modelled from the spec: \<^verbatim>\<open>Block.append_op(type='sum', inputs={"X": sums},
  outputs={'Out': out}, attrs={})\<close>. The framework infers the shape of the output when the
  operator is appended, and refuses a sum operator without any input: nothing is appended
  then.\<close>

definition append_sum_op :: "Block \<Rightarrow> Variable list \<Rightarrow> Variable \<Rightarrow> error + Block" where
  "append_sum_op b sums out =
     (if sums = [] then Inl EnforceNotMet
      else Inr (append_op b \<lparr>op_type = ''sum'', inputs = [(''X'', map name sums)],
                              outputs = [(''Out'', [name out])], attrs = []\<rparr>))"

text \<open>The program \<^verbatim>\<open>convert_program\<close> built from the files found, or the exception that
  leaves the function before the program is run.\<close>

definition shard_program ::
  "Environment \<Rightarrow> Variable \<Rightarrow> string \<Rightarrow> string list \<Rightarrow> error + Program" where
  "shard_program env emb_var0 lookup_table_dirname emb_files =
     (let emb_var = \<lparr>name = name emb_var0, shape = shape emb_var0, dtype = dtype emb_var0,
                     vtype = SELECTED_ROWS, persistable = True\<rparr>;
          global_block0 = create_var (global_block (new_Program env)) emb_var;
          (global_block1, sums) = load_shards global_block0 emb_var lookup_table_dirname 0 emb_files []
      in and_then (append_sum_op global_block1 sums emb_var) (\<lambda>global_block2.
           let global_block3 = append_op global_block2
                                 \<lparr>op_type = ''delete_var'', inputs = [(''X'', map name sums)],
                                  outputs = [], attrs = []\<rparr>
           in Inr ((new_Program env)\<lparr>global_block := global_block3\<rparr>)))"

text \<open>The inner function \<^verbatim>\<open>__load_lookup_table_vars\<close> of the inference loader.\<close>

definition load_lookup_table_vars ::
  "Environment \<Rightarrow> Executor \<Rightarrow> string \<Rightarrow> Program \<Rightarrow> string list \<Rightarrow> Executor \<times> (error + unit)" where
  "load_lookup_table_vars env executor dirname main_program lookup_table_vars =
     (if \<not> isdir env dirname then (executor, Inl ValueError)
      else
        (case getitem lookup_table_vars 0 of Inl e \<Rightarrow> (executor, Inl e) | Inr emb_var_name \<Rightarrow>
        (case var (global_block main_program) emb_var_name of Inl e \<Rightarrow> (executor, Inl e) | Inr emb_var \<Rightarrow>
        (case listdir env (path_join dirname ''__lookup_table__'') of
           Inl e \<Rightarrow> (executor, Inl e)
         | Inr names \<Rightarrow>
             (case shard_program env emb_var (path_join dirname ''__lookup_table__'')
                     (filter (str_contains emb_var_name) names) of
                Inl e \<Rightarrow> (executor, Inl e)
              | Inr convert_program \<Rightarrow> (run executor convert_program, Inr ()))))))"

text \<open>The program the inference loader works on: the argument when it is truthy (and then
  it must be a Program), the program parsed from the file \<^verbatim>\<open>__model__\<close> of the directory
  otherwise.\<close>

definition resolve_program :: "Environment \<Rightarrow> string \<Rightarrow> program_arg \<Rightarrow> error + Program" where
  "resolve_program env dirname program =
     (case program of
        AProgram p \<Rightarrow> Inr p
      | TruthyObject \<Rightarrow> Inl ValueError
      | FalsyObject \<Rightarrow>
          and_then (read_file env (path_join dirname ''__model__'')) (\<lambda>program_desc_str.
          and_then (parse_from_string env program_desc_str) (\<lambda>p.
          if \<not> is_program_version_supported env (version p) then Inl ValueError else Inr p)))"

text \<open>The result is the executor after the call and what the call raised or returned.\<close>

definition load_persistables_for_inference ::
  "Environment \<Rightarrow> string \<Rightarrow> Executor \<Rightarrow> program_arg \<Rightarrow> string \<Rightarrow> Executor \<times> (error + Program)" where
  "load_persistables_for_inference env dirname executor program lookup_table_var_name =
     (if \<not> isdir env dirname then (executor, Inl ValueError)
      else
        (case resolve_program env dirname program of
           Inl e \<Rightarrow> (executor, Inl e)
         | Inr p \<Rightarrow>
             (case load_lookup_table_vars env
                     (load_persistable_vars env executor dirname p [lookup_table_var_name])
                     dirname p [lookup_table_var_name] of
                (executor', Inl e) \<Rightarrow> (executor', Inl e)
              | (executor', Inr u) \<Rightarrow> (executor', Inr p))))"

section \<open>Properties of convert\_dist\_to\_sparse\_program\<close>

subsection \<open>Vocabulary\<close>

text \<open>The consecutive operator sequence split\_ids, prefetch, merge\_ids with the prefetch at
  index \<open>i\<close>; the first such index; and the match that the scan finds at index 0 when the
  last operator is a split\_ids, through \<^verbatim>\<open>op_types[-1]\<close>.\<close>

definition pattern_at :: "string list \<Rightarrow> nat \<Rightarrow> bool" where
  "pattern_at tys i \<longleftrightarrow>
     0 < i \<and> i + 1 < length tys \<and> tys ! (i - 1) = ''split_ids'' \<and> tys ! i = ''prefetch'' \<and>
     tys ! (i + 1) = ''merge_ids''"

definition first_pattern :: "string list \<Rightarrow> nat \<Rightarrow> bool" where
  "first_pattern tys i \<longleftrightarrow> pattern_at tys i \<and> list_all (\<lambda>j. \<not> pattern_at tys j) [0 ..< i]"

definition wrap_match :: "string list \<Rightarrow> bool" where
  "wrap_match tys \<longleftrightarrow>
     2 \<le> length tys \<and> tys ! 0 = ''prefetch'' \<and> last tys = ''split_ids'' \<and> tys ! 1 = ''merge_ids''"

subsection \<open>List indexing and the variable dictionary\<close>

lemma getitem_nat: "getitem xs (int j) = (if j < length xs then Inr (xs ! j) else Inl IndexError)"
  by (simp add: getitem_def)

lemma getitem_succ:
  "getitem xs (int j + 1) = (if j + 1 < length xs then Inr (xs ! (j + 1)) else Inl IndexError)"
  using getitem_nat [of xs "j + 1"] by (simp add: add.commute)

lemma getitem_pred:
  "0 < j \<Longrightarrow> getitem xs (int j - 1) = (if j \<le> length xs then Inr (xs ! (j - 1)) else Inl IndexError)"
  using getitem_nat [of xs "j - 1"] by (auto simp: of_nat_diff)

lemma getitem_minus_one:
  "getitem xs (- 1) = (if xs = [] then Inl IndexError else Inr (last xs))"
proof (cases xs)
  case Nil
  then show ?thesis by (simp add: getitem_def)
next
  case (Cons y ys)
  then have "nat (int (length xs) + - 1) = length xs - 1" by simp
  with Cons show ?thesis by (simp add: getitem_def last_conv_nth)
qed

lemma find_var_name: "find_var vs k = Some v \<Longrightarrow> name v = k"
  by (auto simp: find_var_def find_Some_iff)

lemma find_var_set_var:
  "find_var (set_var vs v) k = (if k = name v then Some v else find_var vs k)"
  by (induction vs) (auto simp: find_var_def)

lemma find_var_del_var:
  "find_var (del_var vs d) k = (if k = d then None else find_var vs k)"
  by (induction vs) (auto simp: find_var_def del_var_def)

subsection \<open>The scan for the prefetch operator\<close>

text \<open>What the scan tests at index \<open>j\<close>: a hit leaves the loop, with the tuple or, when
  \<open>j\<close> is the last index, with IndexError.\<close>

definition py_hit :: "string list \<Rightarrow> nat \<Rightarrow> bool" where
  "py_hit tys j \<longleftrightarrow>
     tys ! j = ''prefetch'' \<and> (if j = 0 then last tys else tys ! (j - 1)) = ''split_ids'' \<and>
     (j + 1 < length tys \<longrightarrow> tys ! (j + 1) = ''merge_ids'')"

lemma prefetch_loop_step:
  assumes "j < length gops"
  shows "prefetch_loop gops (j # rest) =
    (if map op_type gops ! j = ''prefetch'' \<and>
        (if j = 0 then last (map op_type gops) else map op_type gops ! (j - 1)) = ''split_ids''
     then if j + 1 < length gops
          then if map op_type gops ! (j + 1) = ''merge_ids'' then prefetch_tuple_at gops j
               else prefetch_loop gops rest
          else Inl IndexError
     else prefetch_loop gops rest)"
proof (cases "j = 0")
  case True
  with assms have "gops \<noteq> []" by auto
  with True assms show ?thesis
    using getitem_succ [of "map op_type gops" 0] getitem_nat [of "map op_type gops" 0]
    by (simp add: getitem_minus_one)
next
  case False
  with assms show ?thesis
    using getitem_succ [of "map op_type gops" j] getitem_nat [of "map op_type gops" j]
      getitem_pred [of j "map op_type gops"]
    by simp
qed

lemma prefetch_loop_skip:
  assumes "\<forall>j\<in>set js. j < length gops \<and> \<not> py_hit (map op_type gops) j"
  shows "prefetch_loop gops (js @ rest) = prefetch_loop gops rest"
  using assms
proof (induction js)
  case Nil
  then show ?case by simp
next
  case (Cons j js)
  then have j: "j < length gops" and nohit: "\<not> py_hit (map op_type gops) j" by auto
  have "prefetch_loop gops (j # js @ rest) = prefetch_loop gops (js @ rest)"
    using nohit unfolding prefetch_loop_step [OF j] py_hit_def by auto
  with Cons show ?case by simp
qed

declare prefetch_loop.simps(2) [simp del]

lemma upt_split_at: "i < n \<Longrightarrow> [0 ..< n] = [0 ..< i] @ i # [Suc i ..< n]"
proof -
  assume "i < n"
  then have "[0 ..< n] = [0 ..< i] @ [i ..< n]"
    using upt_add_eq_append [of 0 i "n - i"] by simp
  with \<open>i < n\<close> show ?thesis by (simp add: upt_conv_Cons)
qed

lemma pattern_is_hit: "pattern_at tys i \<Longrightarrow> py_hit tys i"
  by (auto simp: pattern_at_def py_hit_def)

lemma hit_is_pattern_or_wrap:
  assumes "py_hit tys j" "j + 1 < length tys"
  shows "pattern_at tys j \<or> (j = 0 \<and> wrap_match tys)"
  using assms by (cases "j = 0") (auto simp: pattern_at_def py_hit_def wrap_match_def)

lemma get_prefetch_first_pattern:
  assumes fp: "first_pattern (map op_type (ops (global_block p))) i"
    and nw: "\<not> wrap_match (map op_type (ops (global_block p)))"
  shows "get_prefetch_op_tuples p = prefetch_tuple_at (ops (global_block p)) i"
proof -
  let ?gops = "ops (global_block p)"
  let ?tys = "map op_type ?gops"
  from fp have pat: "pattern_at ?tys i" and before: "\<forall>j<i. \<not> pattern_at ?tys j"
    by (auto simp: first_pattern_def list_all_iff)
  from pat have i: "0 < i" "i + 1 < length ?gops" by (auto simp: pattern_at_def)
  have skip: "\<forall>j\<in>set [0 ..< i]. j < length ?gops \<and> \<not> py_hit ?tys j"
  proof
    fix j assume "j \<in> set [0 ..< i]"
    then have j: "j < i" by simp
    with i have len: "j + 1 < length ?tys" by simp
    from hit_is_pattern_or_wrap [OF _ len] before j nw have "\<not> py_hit ?tys j" by blast
    with len show "j < length ?gops \<and> \<not> py_hit ?tys j" by simp
  qed
  have "get_prefetch_op_tuples p = prefetch_loop ?gops ([0 ..< i] @ i # [Suc i ..< length ?gops])"
    using i upt_split_at [of i "length ?gops"] by (simp add: get_prefetch_op_tuples_def)
  also have "\<dots> = prefetch_loop ?gops (i # [Suc i ..< length ?gops])"
    by (rule prefetch_loop_skip [OF skip])
  also have "\<dots> = prefetch_tuple_at ?gops i"
    using pat i prefetch_loop_step [of i ?gops "[Suc i ..< length ?gops]"]
    by (simp add: pattern_at_def)
  finally show ?thesis .
qed

lemma get_prefetch_wrap:
  assumes "wrap_match (map op_type (ops (global_block p)))"
  shows "get_prefetch_op_tuples p = prefetch_tuple_at (ops (global_block p)) 0"
proof -
  let ?gops = "ops (global_block p)"
  from assms have len: "2 \<le> length ?gops" by (simp add: wrap_match_def)
  then have "0 < length ?gops" by linarith
  then have "[0 ..< length ?gops] = 0 # [Suc 0 ..< length ?gops]"
    by (rule upt_conv_Cons)
  then have "get_prefetch_op_tuples p = prefetch_loop ?gops (0 # [Suc 0 ..< length ?gops])"
    by (simp only: get_prefetch_op_tuples_def)
  also have "\<dots> = prefetch_tuple_at ?gops 0"
  proof -
    from len have ne: "?gops \<noteq> []" "0 < length ?gops" "0 + 1 < length ?gops" by auto
    from assms show ?thesis
      unfolding prefetch_loop_step [OF ne(2)] using ne by (simp add: wrap_match_def)
  qed
  finally show ?thesis .
qed

lemma prefetch_tuple_at_index:
  "prefetch_tuple_at gops i = Inr (Some (s, ids, outs, dl)) \<Longrightarrow> s = int i - 1"
  by (auto simp: prefetch_tuple_at_def and_then_def split: sum.splits)

lemma prefetch_tuple_at_inside:
  assumes "0 < i" "i + 1 < length gops"
  shows "prefetch_tuple_at gops i =
     and_then (input (gops ! (i - 1)) ''Ids'') (\<lambda>split_ids_inputs.
     and_then (input (gops ! i) ''X'') (\<lambda>prefetch_op_inputs.
     and_then (output' (gops ! i) ''Out'') (\<lambda>prefetch_op_outputs.
     and_then (output' (gops ! (i + 1)) ''Out'') (\<lambda>merge_ids_outputs.
     Inr (Some (int i - 1, split_ids_inputs, merge_ids_outputs,
                prefetch_op_inputs @ prefetch_op_outputs))))))"
  using assms getitem_succ [of gops i] getitem_nat [of gops i] getitem_pred [of i gops]
  by (simp add: prefetch_tuple_at_def)

subsection \<open>Removing and inserting operators\<close>

text \<open>The variable created under the table's name, the operator node inserted for one pair
  of names (with the attributes of the call that the proto declares), all operators inserted
  for a list of pairs (each insertion is at the same index, so they end up in reverse order),
  and membership in the block's variable dictionary.\<close>

definition sparse_table_var :: "string \<Rightarrow> Variable \<Rightarrow> Variable" where
  "sparse_table_var t v =
     \<lparr>name = t, shape = shape v, dtype = dtype v, vtype = SELECTED_ROWS, persistable = True\<rparr>"

definition sparse_lookup :: "OpProtos \<Rightarrow> string \<Rightarrow> string \<Rightarrow> string \<Rightarrow> Operator" where
  "sparse_lookup protos ids w out =
     \<lparr>op_type = ''lookup_sparse_table'',
      inputs = [(''Ids'', [ids]), (''W'', [w])],
      outputs = [(''Out'', [out])],
      attrs = kept_attrs protos ''lookup_sparse_table''
                [(''is_distributed'', ABool False), (''is_sparse'', ABool True),
                 (''grad_inplace'', ABool False)]\<rparr>"

definition inserted_ops :: "OpProtos \<Rightarrow> string \<Rightarrow> (string \<times> string) list \<Rightarrow> Operator list" where
  "inserted_ops protos w pairs = rev (map (\<lambda>(a, b). sparse_lookup protos a w b) pairs)"

definition declared :: "Block \<Rightarrow> string \<Rightarrow> bool" where
  "declared b k \<longleftrightarrow> find_var (vars b) k \<noteq> None"

lemma range_desc_three: "range_desc (s + 2) (s - 1) = [s + 2, s + 1, s]"
  by (simp add: range_desc.simps)

declare range_desc.simps [simp del]

lemma remove_op_eq:
  "remove_op b idx = Inr b' \<longleftrightarrow>
     0 \<le> idx \<and> nat idx < length (ops b) \<and>
     b' = b\<lparr>ops := take (nat idx) (ops b) @ drop (Suc (nat idx)) (ops b)\<rparr>"
  by (auto simp: remove_op_def)

lemma drop_one_of_take_drop:
  "Suc k \<le> length xs \<Longrightarrow>
     take k (take (Suc k) xs @ ys) @ drop (Suc k) (take (Suc k) xs @ ys) = take k xs @ ys"
  by (simp add: min_def)

lemma remove_three:
  assumes "0 \<le> s" "nat s + 2 < length (ops (global_block p))"
  shows "remove_ops p [s + 2, s + 1, s] =
     (p\<lparr>global_block := (global_block p)\<lparr>ops :=
          take (nat s) (ops (global_block p)) @ drop (nat s + 3) (ops (global_block p))\<rparr>\<rparr>,
      Inr ())"
proof -
  let ?xs = "ops (global_block p)"
  have n: "nat (s + 2) = Suc (Suc (nat s))" "nat (s + 1) = Suc (nat s)"
    using assms by (simp_all add: nat_add_distrib)
  have a: "take (Suc (nat s)) (take (Suc (Suc (nat s))) ?xs @ drop (Suc (Suc (Suc (nat s)))) ?xs) @
           drop (Suc (Suc (nat s))) (take (Suc (Suc (nat s))) ?xs @ drop (Suc (Suc (Suc (nat s)))) ?xs)
           = take (Suc (nat s)) ?xs @ drop (Suc (Suc (Suc (nat s)))) ?xs"
    using assms by (intro drop_one_of_take_drop) simp
  have b: "take (nat s) (take (Suc (nat s)) ?xs @ drop (Suc (Suc (Suc (nat s)))) ?xs) @
           drop (Suc (nat s)) (take (Suc (nat s)) ?xs @ drop (Suc (Suc (Suc (nat s)))) ?xs)
           = take (nat s) ?xs @ drop (Suc (Suc (Suc (nat s)))) ?xs"
    using assms by (intro drop_one_of_take_drop) simp
  show ?thesis
    using assms by (simp add: remove_op_def n a b numeral_3_eq_3 min_def)
qed

lemma remove_three_inv:
  assumes "snd (remove_ops p [s + 2, s + 1, s]) = Inr u"
  shows "0 \<le> s \<and> nat s + 2 < length (ops (global_block p))"
proof -
  from assms obtain b1 where b1: "remove_op (global_block p) (s + 2) = Inr b1"
    by (cases "remove_op (global_block p) (s + 2)") auto
  from assms b1 obtain b2 where b2: "remove_op b1 (s + 1) = Inr b2"
    by (cases "remove_op b1 (s + 1)") auto
  from assms b1 b2 obtain b3 where b3: "remove_op b2 s = Inr b3"
    by (cases "remove_op b2 s") auto
  from b3 have "0 \<le> s" by (simp add: remove_op_eq)
  moreover from b1 have "nat (s + 2) < length (ops (global_block p))" by (simp add: remove_op_eq)
  ultimately show ?thesis by (simp add: nat_add_distrib)
qed


lemma insert_lookup_ok:
  assumes "0 \<le> idx" "nat idx \<le> length (ops (global_block p))"
  shows "insert_lookup_sparse_table_op protos p idx ids w out =
     (p\<lparr>global_block := (global_block p)\<lparr>ops :=
          take (nat idx) (ops (global_block p)) @
          sparse_lookup protos (name ids) (name w) (name out) #
          drop (nat idx) (ops (global_block p))\<rparr>\<rparr>,
      Inr ())"
  using assms
  by (simp add: insert_lookup_sparse_table_op_def insert_op_def lookup_sparse_table_op_def
      sparse_lookup_def)

lemma insert_lookup_frame:
  "\<exists>xs. fst (insert_lookup_sparse_table_op protos p idx ids w out) =
     p\<lparr>global_block := (global_block p)\<lparr>ops := xs\<rparr>\<rparr>"
proof (cases "0 \<le> idx \<and> nat idx \<le> length (ops (global_block p))")
  case True
  then have "fst (insert_lookup_sparse_table_op protos p idx ids w out) =
      p\<lparr>global_block := (global_block p)\<lparr>ops :=
          take (nat idx) (ops (global_block p)) @
          sparse_lookup protos (name ids) (name w) (name out) #
          drop (nat idx) (ops (global_block p))\<rparr>\<rparr>"
    by (simp add: insert_lookup_ok)
  then show ?thesis by blast
next
  case False
  then have "fst (insert_lookup_sparse_table_op protos p idx ids w out) =
      p\<lparr>global_block := (global_block p)\<lparr>ops := ops (global_block p)\<rparr>\<rparr>"
    by (auto simp: insert_lookup_sparse_table_op_def insert_op_def)
  then show ?thesis by blast
qed


lemma insert_pairs_ok:
  assumes "0 \<le> idx" "nat idx \<le> length (ops (global_block p))"
    and "\<forall>pr\<in>set pairs. declared (global_block p) (fst pr) \<and> declared (global_block p) (snd pr)"
  shows "insert_pairs protos p idx w pairs =
     (p\<lparr>global_block := (global_block p)\<lparr>ops :=
          take (nat idx) (ops (global_block p)) @ inserted_ops protos (name w) pairs @
          drop (nat idx) (ops (global_block p))\<rparr>\<rparr>,
      Inr ())"
  using assms
proof (induction pairs arbitrary: p)
  case Nil
  then show ?case by (simp add: inserted_ops_def)
next
  case (Cons pr pairs)
  from Cons.prems(3) obtain ids out where
    ids: "vars_getitem (global_block p) (fst pr) = Inr ids" and
    out: "vars_getitem (global_block p) (snd pr) = Inr out"
    by (auto simp: declared_def vars_getitem_def)
  from ids have a: "name ids = fst pr"
    by (auto simp: vars_getitem_def split: option.splits dest: find_var_name)
  from out have b: "name out = snd pr"
    by (auto simp: vars_getitem_def split: option.splits dest: find_var_name)
  let ?q = "p\<lparr>global_block := (global_block p)\<lparr>ops :=
      take (nat idx) (ops (global_block p)) @ sparse_lookup protos (fst pr) (name w) (snd pr) #
      drop (nat idx) (ops (global_block p))\<rparr>\<rparr>"
  have q: "insert_lookup_sparse_table_op protos p idx ids w out = (?q, Inr ())"
    using insert_lookup_ok [OF Cons.prems(1,2)] by (simp add: a b)
  have len: "nat idx \<le> length (ops (global_block ?q))"
    using Cons.prems(2) by simp
  have d: "\<forall>pr\<in>set pairs. declared (global_block ?q) (fst pr) \<and> declared (global_block ?q) (snd pr)"
    using Cons.prems(3) by (simp add: declared_def)
  from Cons.IH [OF Cons.prems(1) len d] show ?case
    using Cons.prems(2) by (simp add: ids out q inserted_ops_def min_def case_prod_beta)
qed

lemma insert_pairs_inv:
  assumes "snd (insert_pairs protos p idx w pairs) = Inr u"
  shows "\<forall>pr\<in>set pairs. declared (global_block p) (fst pr) \<and> declared (global_block p) (snd pr)"
  using assms
proof (induction pairs arbitrary: p)
  case Nil
  then show ?case by simp
next
  case (Cons pr pairs)
  from Cons.prems obtain ids where ids: "vars_getitem (global_block p) (fst pr) = Inr ids"
    by (cases "vars_getitem (global_block p) (fst pr)") auto
  from Cons.prems ids obtain out where out: "vars_getitem (global_block p) (snd pr) = Inr out"
    by (cases "vars_getitem (global_block p) (snd pr)") auto
  obtain q r where qr: "insert_lookup_sparse_table_op protos p idx ids w out = (q, r)"
    by (cases "insert_lookup_sparse_table_op protos p idx ids w out")
  from insert_lookup_frame [of protos p idx ids w out] qr
  have v: "vars (global_block q) = vars (global_block p)" by auto
  from Cons.prems ids out qr obtain u' where r: "r = Inr u'"
    by (cases r) auto
  from Cons.prems have "snd (insert_pairs protos q idx w pairs) = Inr u"
    by (simp add: ids out qr r)
  from Cons.IH [OF this] have "\<forall>pr\<in>set pairs. declared (global_block p) (fst pr) \<and>
      declared (global_block p) (snd pr)"
    by (simp add: declared_def v)
  moreover from ids out have "declared (global_block p) (fst pr) \<and> declared (global_block p) (snd pr)"
    by (auto simp: declared_def vars_getitem_def split: option.splits)
  ultimately show ?case by simp
qed

subsection \<open>The whole conversion\<close>

text \<open>The global block after the table variable has been renamed and the SELECTED\_ROWS
  variable created.\<close>

definition renamed_block :: "Block \<Rightarrow> string \<Rightarrow> Variable \<Rightarrow> Block" where
  "renamed_block b t v =
     b\<lparr>vars := set_var (del_var (set_var (vars b) (v\<lparr>name := t @ ''.origin''\<rparr>)) t)
                 (sparse_table_var t v),
       ops := map (rename_op t (t @ ''.origin'')) (ops b)\<rparr>"

lemma make_sparse_table_Some:
  assumes "find_var (vars (global_block p)) t = Some v"
  shows "make_sparse_table p t =
     (p\<lparr>global_block := renamed_block (global_block p) t v\<rparr>, Inr (sparse_table_var t v))"
  using assms
  by (simp add: make_sparse_table_def rename_var_def vars_getitem_def find_var_del_var
      find_var_set_var create_var_def renamed_block_def sparse_table_var_def Let_def)

lemma make_sparse_table_None:
  assumes "find_var (vars (global_block p)) t = None"
  shows "make_sparse_table p t = (p, Inl ValueError)"
  using assms by (simp add: make_sparse_table_def rename_var_def)

lemma replace_prefetch_ops_ok:
  assumes g: "get_prefetch_op_tuples q = Inr (Some (s, ids, outs, dl))"
    and s: "0 \<le> s" "nat s + 2 < length (ops (global_block q))"
    and d: "\<forall>pr\<in>set (zip ids outs). declared (global_block q) (fst pr) \<and> declared (global_block q) (snd pr)"
  shows "replace_prefetch_ops protos q w =
     (q\<lparr>global_block := (global_block q)\<lparr>ops :=
          take (nat s) (ops (global_block q)) @ inserted_ops protos (name w) (zip ids outs) @
          drop (nat s + 3) (ops (global_block q))\<rparr>\<rparr>,
      Inr ())"
proof -
  let ?q2 = "q\<lparr>global_block := (global_block q)\<lparr>ops :=
      take (nat s) (ops (global_block q)) @ drop (nat s + 3) (ops (global_block q))\<rparr>\<rparr>"
  have len: "nat s \<le> length (ops (global_block ?q2))" using s by simp
  have d2: "\<forall>pr\<in>set (zip ids outs). declared (global_block ?q2) (fst pr) \<and>
      declared (global_block ?q2) (snd pr)"
    using d by (simp add: declared_def)
  have "insert_pairs protos ?q2 s w (zip ids outs) =
     (q\<lparr>global_block := (global_block q)\<lparr>ops :=
          take (nat s) (ops (global_block q)) @ inserted_ops protos (name w) (zip ids outs) @
          drop (nat s + 3) (ops (global_block q))\<rparr>\<rparr>,
      Inr ())"
    unfolding insert_pairs_ok [OF s(1) len d2] using s by (simp add: min_def)
  then show ?thesis
    by (simp add: replace_prefetch_ops_def g range_desc_three remove_three [OF s]
        del: remove_ops.simps)
qed

lemma replace_prefetch_ops_inv:
  assumes "snd (replace_prefetch_ops protos q w) = Inr u"
  obtains s ids outs dl where
    "get_prefetch_op_tuples q = Inr (Some (s, ids, outs, dl))"
    "0 \<le> s" "nat s + 2 < length (ops (global_block q))"
    "\<forall>pr\<in>set (zip ids outs). declared (global_block q) (fst pr) \<and> declared (global_block q) (snd pr)"
proof -
  from assms obtain tup where g0: "get_prefetch_op_tuples q = Inr (Some tup)"
    by (cases "get_prefetch_op_tuples q")
      (auto simp: replace_prefetch_ops_def split: option.splits)
  obtain s ids outs dl where tup: "tup = (s, ids, outs, dl)" by (cases tup)
  with g0 have g: "get_prefetch_op_tuples q = Inr (Some (s, ids, outs, dl))" by simp
  obtain q2 r where qr: "remove_ops q [s + 2, s + 1, s] = (q2, r)"
    by (cases "remove_ops q [s + 2, s + 1, s]")
  from assms g qr obtain u2 where r: "r = Inr u2"
    by (cases r) (auto simp: replace_prefetch_ops_def range_desc_three simp del: remove_ops.simps)
  from qr r have "snd (remove_ops q [s + 2, s + 1, s]) = Inr u2" by simp
  from remove_three_inv [OF this] have s: "0 \<le> s" "nat s + 2 < length (ops (global_block q))"
    by auto
  from qr have q2: "q2 = q\<lparr>global_block := (global_block q)\<lparr>ops :=
      take (nat s) (ops (global_block q)) @ drop (nat s + 3) (ops (global_block q))\<rparr>\<rparr>"
    by (simp add: remove_three [OF s] del: remove_ops.simps)
  from assms g qr r have "snd (insert_pairs protos q2 s w (zip ids outs)) = Inr u"
    by (simp add: replace_prefetch_ops_def range_desc_three del: remove_ops.simps)
  from insert_pairs_inv [OF this]
  have "\<forall>pr\<in>set (zip ids outs). declared (global_block q) (fst pr) \<and> declared (global_block q) (snd pr)"
    by (simp add: q2 declared_def)
  with g s show ?thesis by (rule that)
qed


text \<open>The call on a program whose table attribute names a variable of the global block.\<close>

lemma convert_table:
  assumes "distributed_lookup_table p = Some t" "t \<noteq> []"
    and "find_var (vars (global_block p)) t = Some v"
  shows "convert_dist_to_sparse_program protos p =
     and_next (replace_prefetch_ops protos (p\<lparr>global_block := renamed_block (global_block p) t v\<rparr>)
                 (sparse_table_var t v))
       (\<lambda>program3 u. (program3, Inr (Some program3)))"
  using assms by (simp add: convert_dist_to_sparse_program_def make_sparse_table_Some)


lemma convert_returns_programD:
  assumes "snd (convert_dist_to_sparse_program protos p) = Inr (Some p')"
  obtains t v s ids outs dl where
    "distributed_lookup_table p = Some t" "t \<noteq> []"
    "find_var (vars (global_block p)) t = Some v"
    "get_prefetch_op_tuples (p\<lparr>global_block := renamed_block (global_block p) t v\<rparr>) =
       Inr (Some (s, ids, outs, dl))"
    "0 \<le> s" "nat s + 2 < length (ops (global_block p))"
    "\<forall>pr\<in>set (zip ids outs). declared (renamed_block (global_block p) t v) (fst pr) \<and>
       declared (renamed_block (global_block p) t v) (snd pr)"
    "p' = p\<lparr>global_block := (renamed_block (global_block p) t v)\<lparr>ops :=
            take (nat s) (ops (renamed_block (global_block p) t v)) @
            inserted_ops protos t (zip ids outs) @
            drop (nat s + 3) (ops (renamed_block (global_block p) t v))\<rparr>\<rparr>"
    "fst (convert_dist_to_sparse_program protos p) = p'"
proof -
  from assms obtain t where t: "distributed_lookup_table p = Some t" "t \<noteq> []"
    by (auto simp: convert_dist_to_sparse_program_def split: option.splits if_splits)
  from assms t obtain v where v: "find_var (vars (global_block p)) t = Some v"
    by (cases "find_var (vars (global_block p)) t")
      (auto simp: convert_dist_to_sparse_program_def make_sparse_table_None)
  let ?p1 = "p\<lparr>global_block := renamed_block (global_block p) t v\<rparr>"
  let ?w = "sparse_table_var t v"
  note c = convert_table [OF t v, of protos]
  from assms obtain u where r: "snd (replace_prefetch_ops protos ?p1 ?w) = Inr u"
    unfolding c and_next_def by (cases "snd (replace_prefetch_ops protos ?p1 ?w)") auto
  from r obtain s ids outs dl where
    g: "get_prefetch_op_tuples ?p1 = Inr (Some (s, ids, outs, dl))" and
    s: "0 \<le> s" "nat s + 2 < length (ops (global_block ?p1))" and
    d: "\<forall>pr\<in>set (zip ids outs). declared (global_block ?p1) (fst pr) \<and>
          declared (global_block ?p1) (snd pr)"
    by (rule replace_prefetch_ops_inv)
  note e = replace_prefetch_ops_ok [OF g s d, of protos ?w]
  from assms have p': "p' = p\<lparr>global_block := (renamed_block (global_block p) t v)\<lparr>ops :=
            take (nat s) (ops (renamed_block (global_block p) t v)) @
            inserted_ops protos t (zip ids outs) @
            drop (nat s + 3) (ops (renamed_block (global_block p) t v))\<rparr>\<rparr>"
    unfolding c e by (simp add: sparse_table_var_def)
  have f: "fst (convert_dist_to_sparse_program protos p) = p'"
    unfolding c e p' by (simp add: sparse_table_var_def)
  show ?thesis
  proof (rule that [OF t v g s(1) _ _ p' f])
    show "nat s + 2 < length (ops (global_block p))" using s(2) by (simp add: renamed_block_def)
    show "\<forall>pr\<in>set (zip ids outs). declared (renamed_block (global_block p) t v) (fst pr) \<and>
       declared (renamed_block (global_block p) t v) (snd pr)"
      using d by simp
  qed
qed

lemma convert_ok:
  assumes "distributed_lookup_table p = Some t" "t \<noteq> []"
    and v: "find_var (vars (global_block p)) t = Some v"
    and g: "get_prefetch_op_tuples (p\<lparr>global_block := renamed_block (global_block p) t v\<rparr>) =
       Inr (Some (s, ids, outs, dl))"
    and s: "0 \<le> s" "nat s + 2 < length (ops (global_block p))"
    and d: "\<forall>pr\<in>set (zip ids outs). declared (renamed_block (global_block p) t v) (fst pr) \<and>
              declared (renamed_block (global_block p) t v) (snd pr)"
  shows "\<exists>p'. convert_dist_to_sparse_program protos p = (p', Inr (Some p'))"
proof -
  let ?p1 = "p\<lparr>global_block := renamed_block (global_block p) t v\<rparr>"
  have s2: "nat s + 2 < length (ops (global_block ?p1))" using s(2) by (simp add: renamed_block_def)
  have d2: "\<forall>pr\<in>set (zip ids outs). declared (global_block ?p1) (fst pr) \<and>
      declared (global_block ?p1) (snd pr)"
    using d by simp
  show ?thesis
    unfolding convert_table [OF assms(1,2) v] replace_prefetch_ops_ok [OF g s(1) s2 d2]
    by simp
qed

text \<open>The names bound to a slot (none when the operator has no such slot), the operators
  of the global block after the renaming, and the pairs zipped from the Ids inputs of the
  operator at \<open>i - 1\<close> and the Out outputs of the operator at \<open>i + 1\<close>.\<close>

definition slot_names :: "(string \<times> string list) list \<Rightarrow> string \<Rightarrow> string list" where
  "slot_names slots slot = (case map_of slots slot of None \<Rightarrow> [] | Some xs \<Rightarrow> xs)"

definition renamed_ops :: "Program \<Rightarrow> string \<Rightarrow> Operator list" where
  "renamed_ops p t = map (rename_op t (t @ ''.origin'')) (ops (global_block p))"

definition removed_pairs :: "Program \<Rightarrow> string \<Rightarrow> nat \<Rightarrow> (string \<times> string) list" where
  "removed_pairs p t i =
     zip (slot_names (inputs (renamed_ops p t ! (i - 1))) ''Ids'')
         (slot_names (outputs (renamed_ops p t ! (i + 1))) ''Out'')"

lemma input_slot_names: "input opr slot = Inr xs \<Longrightarrow> slot_names (inputs opr) slot = xs"
  by (auto simp: input_def slot_names_def split: option.splits)

lemma output_slot_names: "output' opr slot = Inr xs \<Longrightarrow> slot_names (outputs opr) slot = xs"
  by (auto simp: output'_def slot_names_def split: option.splits)

lemma op_type_rename_op [simp]: "op_type (rename_op old new opr) = op_type opr"
  by (simp add: rename_op_def)

lemma ops_renamed_block [simp]: "ops (renamed_block (global_block p) t v) = renamed_ops p t"
  by (simp add: renamed_block_def renamed_ops_def)

lemma types_renamed_ops [simp]: "map op_type (renamed_ops p t) = map op_type (ops (global_block p))"
  by (simp add: renamed_ops_def)

lemma length_renamed_ops [simp]: "length (renamed_ops p t) = length (ops (global_block p))"
  by (simp add: renamed_ops_def)

lemma prefetch_tuple_at_insideD:
  assumes "0 < i" "i + 1 < length gops"
    and "prefetch_tuple_at gops i = Inr (Some (s, ids, outs, dl))"
  shows "s = int i - 1 \<and> input (gops ! (i - 1)) ''Ids'' = Inr ids \<and>
         output' (gops ! (i + 1)) ''Out'' = Inr outs"
  using assms(3) unfolding prefetch_tuple_at_inside [OF assms(1,2)]
  by (auto simp: and_then_def split: sum.splits)

lemma convert_ops:
  assumes t: "distributed_lookup_table p = Some t"
    and fp: "first_pattern (map op_type (ops (global_block p))) i"
    and c: "snd (convert_dist_to_sparse_program protos p) = Inr (Some p')"
  shows "ops (global_block p') =
     take (i - 1) (renamed_ops p t) @ inserted_ops protos t (removed_pairs p t i) @
     drop (i + 2) (renamed_ops p t)"
proof -
  from c obtain t' v s ids outs dl where
    t': "distributed_lookup_table p = Some t'" and
    g: "get_prefetch_op_tuples (p\<lparr>global_block := renamed_block (global_block p) t' v\<rparr>) =
       Inr (Some (s, ids, outs, dl))" and
    s: "0 \<le> s" and
    p': "p' = p\<lparr>global_block := (renamed_block (global_block p) t' v)\<lparr>ops :=
            take (nat s) (ops (renamed_block (global_block p) t' v)) @
            inserted_ops protos t' (zip ids outs) @
            drop (nat s + 3) (ops (renamed_block (global_block p) t' v))\<rparr>\<rparr>"
    by (rule convert_returns_programD)
  from t t' have [simp]: "t' = t" by simp
  let ?p1 = "p\<lparr>global_block := renamed_block (global_block p) t v\<rparr>"
  have tys: "map op_type (ops (global_block ?p1)) = map op_type (ops (global_block p))"
    by simp
  have nw: "\<not> wrap_match (map op_type (ops (global_block ?p1)))"
  proof
    assume "wrap_match (map op_type (ops (global_block ?p1)))"
    from get_prefetch_wrap [OF this] g have "s = int 0 - 1"
      by (auto dest: prefetch_tuple_at_index)
    with s show False by simp
  qed
  from fp have i: "0 < i" "i + 1 < length (renamed_ops p t)"
    by (auto simp: first_pattern_def pattern_at_def)
  from fp have "first_pattern (map op_type (ops (global_block ?p1))) i" by (simp only: tys)
  from get_prefetch_first_pattern [OF this nw] g
  have "prefetch_tuple_at (renamed_ops p t) i = Inr (Some (s, ids, outs, dl))" by simp
  from prefetch_tuple_at_insideD [OF i this]
  have "s = int i - 1" and "slot_names (inputs (renamed_ops p t ! (i - 1))) ''Ids'' = ids"
    and "slot_names (outputs (renamed_ops p t ! (i + 1))) ''Out'' = outs"
    by (auto dest: input_slot_names output_slot_names)
  moreover from this i have "nat s = i - 1" "nat s + 3 = i + 2" by auto
  ultimately show ?thesis by (simp add: p' removed_pairs_def)
qed

subsection \<open>Completion\<close>

text \<open>The operators at \<open>i - 1\<close>, \<open>i\<close> and \<open>i + 1\<close> carry the slots that the scan
  reads when it matches at \<open>i\<close>: Ids; X and Out; Out. \<open>returns_tuple\<close> and
  \<open>returns_program\<close> say that a result is a tuple, respectively a program, and neither an
  exception nor None.\<close>

definition carries_slots :: "Operator list \<Rightarrow> nat \<Rightarrow> bool" where
  "carries_slots gops i \<longleftrightarrow>
     map_of (inputs (gops ! (i - 1))) ''Ids'' \<noteq> None \<and>
     map_of (inputs (gops ! i)) ''X'' \<noteq> None \<and>
     map_of (outputs (gops ! i)) ''Out'' \<noteq> None \<and>
     map_of (outputs (gops ! (i + 1))) ''Out'' \<noteq> None"

definition returns_tuple :: "error + prefetch_op_tuple option \<Rightarrow> bool" where
  "returns_tuple r = (case r of Inr (Some tup) \<Rightarrow> True | _ \<Rightarrow> False)"

definition returns_program :: "error + Program option \<Rightarrow> bool" where
  "returns_program r = (case r of Inr (Some program) \<Rightarrow> True | _ \<Rightarrow> False)"

lemma map_of_rename_args:
  "map_of (rename_args old new slots) slot =
     map_option (map (\<lambda>x. if x = old then new else x)) (map_of slots slot)"
  by (induction slots) (auto simp: rename_args_def)

lemma carries_slots_renamed:
  assumes "i + 1 < length (ops (global_block p))"
    and "carries_slots (ops (global_block p)) i"
  shows "carries_slots (renamed_ops p t) i"
  using assms
  by (simp add: carries_slots_def renamed_ops_def rename_op_def map_of_rename_args)

lemma input_slot:
  "map_of (inputs opr) slot \<noteq> None \<Longrightarrow> input opr slot = Inr (slot_names (inputs opr) slot)"
  by (auto simp: input_def slot_names_def)

lemma output_slot:
  "map_of (outputs opr) slot \<noteq> None \<Longrightarrow> output' opr slot = Inr (slot_names (outputs opr) slot)"
  by (auto simp: output'_def slot_names_def)

lemma prefetch_tuple_at_slots:
  assumes "0 < i" "i + 1 < length gops" "carries_slots gops i"
  shows "prefetch_tuple_at gops i =
     Inr (Some (int i - 1, slot_names (inputs (gops ! (i - 1))) ''Ids'',
                slot_names (outputs (gops ! (i + 1))) ''Out'',
                slot_names (inputs (gops ! i)) ''X'' @ slot_names (outputs (gops ! i)) ''Out''))"
  unfolding prefetch_tuple_at_inside [OF assms(1,2)]
  using assms(3) by (simp add: carries_slots_def input_slot output_slot)

lemma get_prefetch_returns_tuple:
  assumes fp: "first_pattern (map op_type (ops (global_block p))) i"
    and nw: "\<not> wrap_match (map op_type (ops (global_block p)))"
    and cs: "carries_slots (ops (global_block p)) i"
  shows "returns_tuple (get_prefetch_op_tuples p)"
proof -
  from fp have i: "0 < i" "i + 1 < length (ops (global_block p))"
    by (auto simp: first_pattern_def pattern_at_def)
  show ?thesis
    unfolding get_prefetch_first_pattern [OF fp nw] prefetch_tuple_at_slots [OF i cs]
    by (simp add: returns_tuple_def)
qed

lemma convert_returns_iff:
  assumes t: "distributed_lookup_table p = Some t" "t \<noteq> []"
    and v: "find_var (vars (global_block p)) t = Some v"
    and fp: "first_pattern (map op_type (ops (global_block p))) i"
    and nw: "\<not> wrap_match (map op_type (ops (global_block p)))"
    and cs: "carries_slots (ops (global_block p)) i"
  shows "returns_program (snd (convert_dist_to_sparse_program protos p)) \<longleftrightarrow>
     list_all (\<lambda>pr. declared (renamed_block (global_block p) t v) (fst pr) \<and>
                    declared (renamed_block (global_block p) t v) (snd pr))
       (removed_pairs p t i)"
proof -
  let ?b1 = "renamed_block (global_block p) t v"
  let ?p1 = "p\<lparr>global_block := ?b1\<rparr>"
  let ?ops1 = "renamed_ops p t"
  let ?ids = "slot_names (inputs (?ops1 ! (i - 1))) ''Ids''"
  let ?outs = "slot_names (outputs (?ops1 ! (i + 1))) ''Out''"
  let ?dl = "slot_names (inputs (?ops1 ! i)) ''X'' @ slot_names (outputs (?ops1 ! i)) ''Out''"
  from fp have i: "0 < i" "i + 1 < length (ops (global_block p))"
    by (auto simp: first_pattern_def pattern_at_def)
  then have i1: "0 < i" "i + 1 < length ?ops1" by simp_all
  have cs1: "carries_slots ?ops1 i" using i(2) cs by (rule carries_slots_renamed)
  have g: "get_prefetch_op_tuples ?p1 = Inr (Some (int i - 1, ?ids, ?outs, ?dl))"
  proof -
    have "get_prefetch_op_tuples ?p1 = prefetch_tuple_at (ops (global_block ?p1)) i"
      using fp nw by (intro get_prefetch_first_pattern) simp_all
    then show ?thesis using prefetch_tuple_at_slots [OF i1 cs1] by simp
  qed
  show ?thesis
  proof
    assume "returns_program (snd (convert_dist_to_sparse_program protos p))"
    then obtain p' where "snd (convert_dist_to_sparse_program protos p) = Inr (Some p')"
      by (auto simp: returns_program_def split: sum.splits option.splits)
    then obtain t' v' s ids outs dl where
      t': "distributed_lookup_table p = Some t'" and
      v': "find_var (vars (global_block p)) t' = Some v'" and
      g': "get_prefetch_op_tuples (p\<lparr>global_block := renamed_block (global_block p) t' v'\<rparr>) =
         Inr (Some (s, ids, outs, dl))" and
      d': "\<forall>pr\<in>set (zip ids outs). declared (renamed_block (global_block p) t' v') (fst pr) \<and>
         declared (renamed_block (global_block p) t' v') (snd pr)"
      by (rule convert_returns_programD)
    from t t' v v' have e: "t' = t" "v' = v" by simp_all
    from g g' have "ids = ?ids" "outs = ?outs" by (simp_all add: e)
    with d' show "list_all (\<lambda>pr. declared ?b1 (fst pr) \<and> declared ?b1 (snd pr)) (removed_pairs p t i)"
      by (simp add: e removed_pairs_def list_all_iff)
  next
    assume "list_all (\<lambda>pr. declared ?b1 (fst pr) \<and> declared ?b1 (snd pr)) (removed_pairs p t i)"
    then have d: "\<forall>pr\<in>set (zip ?ids ?outs). declared ?b1 (fst pr) \<and> declared ?b1 (snd pr)"
      by (simp add: removed_pairs_def list_all_iff)
    have s: "0 \<le> int i - 1" "nat (int i - 1) + 2 < length (ops (global_block p))"
      using i by auto
    from convert_ok [OF t v g s d, of protos]
    show "returns_program (snd (convert_dist_to_sparse_program protos p))"
      by (auto simp: returns_program_def)
  qed
qed

subsection \<open>A trainer program\<close>

text \<open>An operator registry in which the proto of lookup\_sparse\_table declares the
  attributes \<^verbatim>\<open>padding_idx\<close> and \<^verbatim>\<open>auto_grown_table\<close> and, as in the framework core, none of
  \<^verbatim>\<open>is_distributed\<close>, \<^verbatim>\<open>is_sparse\<close> and \<^verbatim>\<open>grad_inplace\<close>; a trainer program as the
  distribute transpiler leaves it, with a lookup of two id variables; and the program the
  conversion returns for it.\<close>

definition core_protos :: OpProtos where
  "core_protos ty =
     (if ty = ''lookup_sparse_table'' then [''padding_idx'', ''auto_grown_table'']
      else if ty = ''load'' then [''file_path'']
      else [])"

definition tensor_var :: "string \<Rightarrow> Variable" where
  "tensor_var n = \<lparr>name = n, shape = [1000, 8], dtype = OTHER_TYPE 5, vtype = LOD_TENSOR,
                   persistable = False\<rparr>"

definition feed_op :: Operator where
  "feed_op = \<lparr>op_type = ''feed'', inputs = [(''X'', [''feed''])],
              outputs = [(''Out'', [''ids_a''])], attrs = []\<rparr>"

definition split_ids_op :: Operator where
  "split_ids_op = \<lparr>op_type = ''split_ids'', inputs = [(''Ids'', [''ids_a'', ''ids_b''])],
                   outputs = [(''Out'', [''ids.block0''])], attrs = []\<rparr>"

definition prefetch_op :: Operator where
  "prefetch_op = \<lparr>op_type = ''prefetch'', inputs = [(''X'', [''ids.block0''])],
                  outputs = [(''Out'', [''emb.block0''])],
                  attrs = [(''table_name'', AStr ''emb'')]\<rparr>"

definition merge_ids_op :: Operator where
  "merge_ids_op = \<lparr>op_type = ''merge_ids'',
                   inputs = [(''Ids'', [''ids_a'', ''ids_b'']), (''X'', [''emb.block0''])],
                   outputs = [(''Out'', [''out_a'', ''out_b''])], attrs = []\<rparr>"

definition mul_op :: Operator where
  "mul_op = \<lparr>op_type = ''mul'', inputs = [(''X'', [''out_a'']), (''Y'', [''emb''])],
             outputs = [(''Out'', [''out_b''])], attrs = []\<rparr>"

definition trainer_ops :: "Operator list" where
  "trainer_ops = [feed_op, split_ids_op, prefetch_op, merge_ids_op, mul_op]"

definition trainer_vars :: "Variable list" where
  "trainer_vars =
     [(tensor_var ''emb'')\<lparr>persistable := True\<rparr>, tensor_var ''feed'', tensor_var ''ids_a'',
      tensor_var ''ids_b'', tensor_var ''ids.block0'', tensor_var ''emb.block0'',
      tensor_var ''out_a'', tensor_var ''out_b'']"

definition trainer_program :: Program where
  "trainer_program =
     \<lparr>distributed_lookup_table = Some ''emb'', version = 0,
      global_block = \<lparr>vars = trainer_vars, ops = trainer_ops\<rparr>, sub_blocks = []\<rparr>"

definition sparse_vars :: "Variable list \<Rightarrow> Variable list" where
  "sparse_vars vs =
     filter (\<lambda>v. name v \<noteq> ''emb'') vs @
     [(tensor_var ''emb.origin'')\<lparr>persistable := True\<rparr>,
      \<lparr>name = ''emb'', shape = [1000, 8], dtype = OTHER_TYPE 5, vtype = SELECTED_ROWS,
         persistable = True\<rparr>]"

definition renamed_mul_op :: Operator where
  "renamed_mul_op = \<lparr>op_type = ''mul'', inputs = [(''X'', [''out_a'']), (''Y'', [''emb.origin''])],
                     outputs = [(''Out'', [''out_b''])], attrs = []\<rparr>"

definition sparse_program :: Program where
  "sparse_program =
     \<lparr>distributed_lookup_table = Some ''emb'', version = 0,
      global_block =
        \<lparr>vars = sparse_vars trainer_vars,
         ops =
           [feed_op,
            \<lparr>op_type = ''lookup_sparse_table'',
               inputs = [(''Ids'', [''ids_b'']), (''W'', [''emb''])],
               outputs = [(''Out'', [''out_b''])], attrs = []\<rparr>,
            \<lparr>op_type = ''lookup_sparse_table'',
               inputs = [(''Ids'', [''ids_a'']), (''W'', [''emb''])],
               outputs = [(''Out'', [''out_a''])], attrs = []\<rparr>,
            renamed_mul_op]\<rparr>,
      sub_blocks = []\<rparr>"

text \<open>Programs the transpiler does not produce: one that names a lookup table but has no
  operators; the trainer program without the \<^verbatim>\<open>_distributed_lookup_table\<close> attribute; one that
  ends with the prefetch operator; the trainer program without a declaration of the variable
  \<^verbatim>\<open>ids_a\<close> that its split\_ids operator reads; and the trainer program without a declaration
  of the variable \<^verbatim>\<open>out_b\<close> that its merge\_ids operator writes.\<close>

definition untranspiled_program :: Program where
  "untranspiled_program =
     \<lparr>distributed_lookup_table = Some ''emb'', version = 0,
      global_block = \<lparr>vars = [(tensor_var ''emb'')\<lparr>persistable := True\<rparr>], ops = []\<rparr>,
      sub_blocks = []\<rparr>"

definition local_program :: Program where
  "local_program = trainer_program\<lparr>distributed_lookup_table := None\<rparr>"

definition truncated_program :: Program where
  "truncated_program =
     trainer_program\<lparr>global_block :=
       \<lparr>vars = trainer_vars, ops = [feed_op, split_ids_op, prefetch_op]\<rparr>\<rparr>"

definition dangling_program :: Program where
  "dangling_program =
     trainer_program\<lparr>global_block :=
       \<lparr>vars = filter (\<lambda>v. name v \<noteq> ''ids_a'') trainer_vars, ops = trainer_ops\<rparr>\<rparr>"

definition unbound_program :: Program where
  "unbound_program =
     trainer_program\<lparr>global_block :=
       \<lparr>vars = filter (\<lambda>v. name v \<noteq> ''out_b'') trainer_vars, ops = trainer_ops\<rparr>\<rparr>"

lemma trainer_program_converts:
  "convert_dist_to_sparse_program core_protos trainer_program =
     (sparse_program, Inr (Some sparse_program))"
  by code_simp

lemma trainer_program_pattern:
  "first_pattern (map op_type (ops (global_block trainer_program))) 2"
  by code_simp

lemma untranspiled_program_raises:
  "snd (convert_dist_to_sparse_program protos untranspiled_program) = Inl TypeError"
proof -
  have t: "distributed_lookup_table untranspiled_program = Some ''emb''" "''emb'' \<noteq> []"
    by (simp_all add: untranspiled_program_def)
  have v: "find_var (vars (global_block untranspiled_program)) ''emb'' =
      Some ((tensor_var ''emb'')\<lparr>persistable := True\<rparr>)"
    by (simp add: untranspiled_program_def find_var_def tensor_var_def)
  have g: "get_prefetch_op_tuples (untranspiled_program\<lparr>global_block :=
      renamed_block (global_block untranspiled_program) ''emb''
        ((tensor_var ''emb'')\<lparr>persistable := True\<rparr>)\<rparr>) = Inr None"
    by (simp add: get_prefetch_op_tuples_def renamed_block_def untranspiled_program_def)
  show ?thesis
    unfolding convert_table [OF t v] by (simp add: replace_prefetch_ops_def g)
qed

lemma truncated_program_raises:
  "snd (convert_dist_to_sparse_program protos truncated_program) = Inl IndexError"
proof -
  have t: "distributed_lookup_table truncated_program = Some ''emb''" "''emb'' \<noteq> []"
    by (simp_all add: truncated_program_def trainer_program_def)
  have v: "find_var (vars (global_block truncated_program)) ''emb'' =
      Some ((tensor_var ''emb'')\<lparr>persistable := True\<rparr>)"
    by (simp add: truncated_program_def trainer_vars_def find_var_def tensor_var_def)
  have g: "get_prefetch_op_tuples (truncated_program\<lparr>global_block :=
      renamed_block (global_block truncated_program) ''emb''
        ((tensor_var ''emb'')\<lparr>persistable := True\<rparr>)\<rparr>) = Inl IndexError"
    by code_simp
  show ?thesis
    unfolding convert_table [OF t v] by (simp add: replace_prefetch_ops_def g)
qed


lemma map_of_kept_attrs:
  "map_of (kept_attrs protos ty given) a =
     (if a \<in> set (protos ty) then map_of given a else None)"
proof -
  have "map_of (concat (map (\<lambda>k. case map_of given k of None \<Rightarrow> [] | Some v \<Rightarrow> [(k, v)]) ks)) a =
      (if a \<in> set ks then map_of given a else None)" for ks
    by (induction ks) (auto simp: map_add_def split: option.splits)
  then show ?thesis by (simp add: kept_attrs_def)
qed

subsection \<open>Claims on the conversion\<close>




text \<open>C2, as stated, fails: a program whose global block contains the sequence but that has
  no distributed lookup table is left as it is, and None is returned.\<close>

theorem convert_without_table_counterexample:
  "first_pattern (map op_type (ops (global_block local_program))) 2 \<and>
   convert_dist_to_sparse_program core_protos local_program = (local_program, Inr None)"
  by code_simp

text \<open>C2, amended: for every program with a distributed lookup table whose global block
  contains the consecutive sequence split\_ids, prefetch, merge\_ids, the first such prefetch
  at index \<open>i\<close>, a call that returns the program has removed the operators at the indices
  \<open>i + 1\<close>, \<open>i\<close>, \<open>i - 1\<close>, in this order; the operators before \<open>i - 1\<close> and after
  \<open>i + 1\<close> are kept in their order, around the inserted lookup\_sparse\_table operators.\<close>

theorem convert_removes_three_ops:
  assumes "distributed_lookup_table p = Some t"
    and "first_pattern (map op_type (ops (global_block p))) i"
    and "snd (convert_dist_to_sparse_program protos p) = Inr (Some p')"
  shows "range_desc (int (i - 1) + 2) (int (i - 1) - 1) = [int i + 1, int i, int i - 1] \<and>
         ops (global_block p') =
           take (i - 1) (renamed_ops p t) @ inserted_ops protos t (removed_pairs p t i) @
           drop (i + 2) (renamed_ops p t) \<and>
         list_all (\<lambda>opr. op_type opr = ''lookup_sparse_table'')
           (inserted_ops protos t (removed_pairs p t i))"
proof -
  from assms(2) have "0 < i" by (simp add: first_pattern_def pattern_at_def)
  then have "int (i - 1) + 2 = int i + 1" "int (i - 1) + 1 = int i" "int (i - 1) = int i - 1"
    by (simp_all add: of_nat_diff)
  with range_desc_three [of "int (i - 1)"]
  have "range_desc (int (i - 1) + 2) (int (i - 1) - 1) = [int i + 1, int i, int i - 1]"
    by simp
  moreover have "list_all (\<lambda>opr. op_type opr = ''lookup_sparse_table'')
      (inserted_ops protos t (removed_pairs p t i))"
    by (auto simp: inserted_ops_def list_all_iff sparse_lookup_def)
  ultimately show ?thesis using convert_ops [OF assms] by simp
qed

text \<open>The trainer program satisfies the hypotheses of C2.\<close>

theorem convert_removes_three_ops_witness:
  "distributed_lookup_table trainer_program = Some ''emb'' \<and>
   first_pattern (map op_type (ops (global_block trainer_program))) 2 \<and>
   snd (convert_dist_to_sparse_program core_protos trainer_program) = Inr (Some sparse_program) \<and>
   ops (global_block sparse_program) =
     take 1 (renamed_ops trainer_program ''emb'') @
     [sparse_lookup core_protos ''ids_b'' ''emb'' ''out_b'',
      sparse_lookup core_protos ''ids_a'' ''emb'' ''out_a''] @
     drop 4 (renamed_ops trainer_program ''emb'')"
proof -
  have t: "distributed_lookup_table trainer_program = Some ''emb''"
    by (simp add: trainer_program_def)
  have c: "snd (convert_dist_to_sparse_program core_protos trainer_program) = Inr (Some sparse_program)"
    by (simp add: trainer_program_converts)
  have ins: "inserted_ops core_protos ''emb'' (removed_pairs trainer_program ''emb'' 2) =
      [sparse_lookup core_protos ''ids_b'' ''emb'' ''out_b'',
       sparse_lookup core_protos ''ids_a'' ''emb'' ''out_a'']"
    by code_simp
  from convert_removes_three_ops [OF t trainer_program_pattern c] t trainer_program_pattern c
  show ?thesis by (simp add: ins)
qed

text \<open>C3, as stated, fails. On the trainer program without the declaration of
  \<^verbatim>\<open>ids_a\<close> the zip has two pairs, the dictionary lookup at line 124 raises KeyError for the
  first of them, and the program is left with the three operators removed and no
  lookup\_sparse\_table operator inserted. And with a registry in which the proto of
  lookup\_sparse\_table declares none of the three attributes, the operators inserted into the
  trainer program carry none of them.\<close>

theorem convert_inserts_lookup_ops_counterexample:
  "distributed_lookup_table dangling_program = Some ''emb'' \<and>
   first_pattern (map op_type (ops (global_block dangling_program))) 2 \<and>
   removed_pairs dangling_program ''emb'' 2 = [(''ids_a'', ''out_a''), (''ids_b'', ''out_b'')] \<and>
   snd (convert_dist_to_sparse_program core_protos dangling_program) = Inl KeyError \<and>
   ops (global_block (fst (convert_dist_to_sparse_program core_protos dangling_program))) =
     [feed_op, renamed_mul_op] \<and>
   snd (convert_dist_to_sparse_program core_protos trainer_program) = Inr (Some sparse_program) \<and>
   ops (global_block sparse_program) ! 2 =
     \<lparr>op_type = ''lookup_sparse_table'',
      inputs = [(''Ids'', [''ids_a'']), (''W'', [''emb''])],
      outputs = [(''Out'', [''out_a''])],
      attrs = []\<rparr>"
  by code_simp

text \<open>C3, amended: on a call that returns the program, for the \<open>k\<close>-th pair zipped from
  the Ids inputs of the removed split\_ids operator and the Out outputs of the removed
  merge\_ids operator, the program holds a lookup\_sparse\_table operator with that Ids input,
  the table's name as W and that Out output; of the attributes is\_distributed False,
  is\_sparse True, grad\_inplace False that the call passes, the operator carries exactly
  those that the proto of lookup\_sparse\_table declares.
  Every insertion is at the former index \<open>i - 1\<close> of the split\_ids operator, so the
  operator of pair \<open>k\<close> of \<open>m\<close> ends at index \<open>i - 1 + (m - 1 - k)\<close>; one operator is
  inserted for each pair, and the variable named by W has type SELECTED\_ROWS.\<close>

theorem convert_inserts_lookup_ops:
  assumes "distributed_lookup_table p = Some t"
    and "first_pattern (map op_type (ops (global_block p))) i"
    and "snd (convert_dist_to_sparse_program protos p) = Inr (Some p')"
    and "k < length (removed_pairs p t i)"
  shows "ops (global_block p') ! (i - 1 + (length (removed_pairs p t i) - 1 - k)) =
           \<lparr>op_type = ''lookup_sparse_table'',
            inputs = [(''Ids'', [fst (removed_pairs p t i ! k)]), (''W'', [t])],
            outputs = [(''Out'', [snd (removed_pairs p t i ! k)])],
            attrs = kept_attrs protos ''lookup_sparse_table''
                      [(''is_distributed'', ABool False), (''is_sparse'', ABool True),
                       (''grad_inplace'', ABool False)]\<rparr> \<and>
         (\<forall>a. map_of (attrs (ops (global_block p') !
                             (i - 1 + (length (removed_pairs p t i) - 1 - k)))) a =
                (if a \<in> set (protos ''lookup_sparse_table'')
                 then map_of [(''is_distributed'', ABool False), (''is_sparse'', ABool True),
                              (''grad_inplace'', ABool False)] a
                 else None)) \<and>
         length (ops (global_block p')) + 3 =
           length (ops (global_block p)) + length (removed_pairs p t i) \<and>
         map_option vtype (find_var (vars (global_block p')) t) = Some SELECTED_ROWS"
proof -
  let ?pairs = "removed_pairs p t i"
  let ?m = "length ?pairs"
  let ?given = "[(''is_distributed'', ABool False), (''is_sparse'', ABool True),
                 (''grad_inplace'', ABool False)]"
  from assms(2) have i: "0 < i" "i + 1 < length (renamed_ops p t)"
    by (auto simp: first_pattern_def pattern_at_def)
  note e = convert_ops [OF assms(1-3)]
  have len_ins: "length (inserted_ops protos t ?pairs) = ?m" by (simp add: inserted_ops_def)
  have "ops (global_block p') ! (i - 1 + (?m - 1 - k)) = inserted_ops protos t ?pairs ! (?m - 1 - k)"
    using i assms(4) by (simp add: e nth_append len_ins min_def)
  also have "\<dots> = map (\<lambda>(a, b). sparse_lookup protos a t b) ?pairs ! k"
    using assms(4) by (simp add: inserted_ops_def rev_nth)
  also have "\<dots> = sparse_lookup protos (fst (?pairs ! k)) t (snd (?pairs ! k))"
    using assms(4) by (simp add: case_prod_beta)
  finally have a: "ops (global_block p') ! (i - 1 + (?m - 1 - k)) =
      sparse_lookup protos (fst (?pairs ! k)) t (snd (?pairs ! k))" .
  have n: "\<forall>a. map_of (attrs (sparse_lookup protos (fst (?pairs ! k)) t (snd (?pairs ! k)))) a =
      (if a \<in> set (protos ''lookup_sparse_table'') then map_of ?given a else None)"
    by (simp only: sparse_lookup_def Operator.simps map_of_kept_attrs) simp
  have b: "length (ops (global_block p')) + 3 = length (ops (global_block p)) + ?m"
    using i by (simp add: e len_ins min_def)
  from assms(3) obtain t' v s ids outs dl where
    t': "distributed_lookup_table p = Some t'" and
    p': "p' = p\<lparr>global_block := (renamed_block (global_block p) t' v)\<lparr>ops :=
            take (nat s) (ops (renamed_block (global_block p) t' v)) @
            inserted_ops protos t' (zip ids outs) @
            drop (nat s + 3) (ops (renamed_block (global_block p) t' v))\<rparr>\<rparr>"
    by (rule convert_returns_programD)
  from assms(1) t' have [simp]: "t' = t" by simp
  have c: "map_option vtype (find_var (vars (global_block p')) t) = Some SELECTED_ROWS"
    by (simp add: p' renamed_block_def find_var_set_var sparse_table_var_def)
  have n': "\<forall>a. map_of (attrs (ops (global_block p') ! (i - 1 + (?m - 1 - k)))) a =
      (if a \<in> set (protos ''lookup_sparse_table'') then map_of ?given a else None)"
    unfolding a by (rule n)
  from a have a': "ops (global_block p') ! (i - 1 + (?m - 1 - k)) =
      \<lparr>op_type = ''lookup_sparse_table'',
       inputs = [(''Ids'', [fst (?pairs ! k)]), (''W'', [t])],
       outputs = [(''Out'', [snd (?pairs ! k)])],
       attrs = kept_attrs protos ''lookup_sparse_table'' ?given\<rparr>"
    by (simp add: sparse_lookup_def)
  from a' n' b c show ?thesis by blast
qed

text \<open>The trainer program satisfies the hypotheses of C3.\<close>

theorem convert_inserts_lookup_ops_witness:
  "distributed_lookup_table trainer_program = Some ''emb'' \<and>
   first_pattern (map op_type (ops (global_block trainer_program))) 2 \<and>
   snd (convert_dist_to_sparse_program core_protos trainer_program) = Inr (Some sparse_program) \<and>
   removed_pairs trainer_program ''emb'' 2 = [(''ids_a'', ''out_a''), (''ids_b'', ''out_b'')] \<and>
   ops (global_block sparse_program) ! 2 =
     \<lparr>op_type = ''lookup_sparse_table'',
      inputs = [(''Ids'', [''ids_a'']), (''W'', [''emb''])],
      outputs = [(''Out'', [''out_a''])],
      attrs = []\<rparr> \<and>
   length (ops (global_block sparse_program)) = 4"
proof -
  have t: "distributed_lookup_table trainer_program = Some ''emb''"
    by (simp add: trainer_program_def)
  have c: "snd (convert_dist_to_sparse_program core_protos trainer_program) = Inr (Some sparse_program)"
    by (simp add: trainer_program_converts)
  have pairs: "removed_pairs trainer_program ''emb'' 2 = [(''ids_a'', ''out_a''), (''ids_b'', ''out_b'')]"
    by code_simp
  have k: "0 < length (removed_pairs trainer_program ''emb'' 2)" by (simp add: pairs)
  have len: "length (ops (global_block trainer_program)) = 5"
    by (simp add: trainer_program_def trainer_ops_def)
  have ka: "kept_attrs core_protos ''lookup_sparse_table''
      [(''is_distributed'', ABool False), (''is_sparse'', ABool True),
       (''grad_inplace'', ABool False)] = []"
    by code_simp
  from convert_inserts_lookup_ops [OF t trainer_program_pattern c k]
  have "ops (global_block sparse_program) ! Suc (Suc 0) =
     \<lparr>op_type = ''lookup_sparse_table'',
      inputs = [(''Ids'', [''ids_a'']), (''W'', [''emb''])],
      outputs = [(''Out'', [''out_a''])],
      attrs = []\<rparr> \<and>
     length (ops (global_block sparse_program)) = 4"
    by (simp add: pairs len ka)
  with t trainer_program_pattern c pairs
  show ?thesis by (simp add: numeral_2_eq_2)
qed

text \<open>C10, as stated, fails. The trainer program without the declaration of \<^verbatim>\<open>out_b\<close> has
  a declared lookup table and a prefetch operator, at index 2 of 5 operators, between a
  split\_ids and a merge\_ids operator; \<^verbatim>\<open>__get_prefetch_op_tuples\<close> returns a tuple, and
  the dictionary lookup at line 125 raises KeyError.\<close>

theorem convert_raises_counterexample:
  "distributed_lookup_table unbound_program = Some ''emb'' \<and>
   declared (global_block unbound_program) ''emb'' \<and>
   pattern_at (map op_type (ops (global_block unbound_program))) 2 \<and>
   length (ops (global_block unbound_program)) = 5 \<and>
   get_prefetch_op_tuples unbound_program =
     Inr (Some (1, [''ids_a'', ''ids_b''], [''out_a'', ''out_b''], [''ids.block0'', ''emb.block0''])) \<and>
   snd (convert_dist_to_sparse_program core_protos unbound_program) = Inl KeyError"
  by code_simp

text \<open>C10, amended: for every program with a distributed lookup table that names (by a name
  that is not empty) a variable of the global block, whose global block contains a prefetch
  operator immediately preceded by split\_ids and immediately followed by merge\_ids, the
  first such at index \<open>i\<close>, where these three operators carry the slots Ids; X and Out;
  Out: \<^verbatim>\<open>__get_prefetch_op_tuples\<close> returns a tuple, not None, and
  \<^verbatim>\<open>convert_dist_to_sparse_program\<close> completes without raising and returns the program
  exactly when every name zipped from the Ids of the split\_ids operator and the Out of the
  merge\_ids operator is, after the renaming of the table, a variable of the global block.
  Blocks whose first operator is a prefetch, whose second is a merge\_ids and whose last is a
  split\_ids are left out of this statement. Outside the precondition the subscript of None
  (TypeError, on a block without operators) and the read past the end (IndexError, on a
  block ending with split\_ids, prefetch) are reached.\<close>

theorem convert_completes:
  assumes "distributed_lookup_table p = Some t" "t \<noteq> []"
    and "find_var (vars (global_block p)) t = Some v"
    and "first_pattern (map op_type (ops (global_block p))) i"
    and "carries_slots (ops (global_block p)) i"
    and "\<not> wrap_match (map op_type (ops (global_block p)))"
  shows "returns_tuple (get_prefetch_op_tuples p) \<and>
         (returns_program (snd (convert_dist_to_sparse_program protos p)) \<longleftrightarrow>
            list_all (\<lambda>pr. declared (renamed_block (global_block p) t v) (fst pr) \<and>
                           declared (renamed_block (global_block p) t v) (snd pr))
              (removed_pairs p t i)) \<and>
         snd (convert_dist_to_sparse_program protos untranspiled_program) = Inl TypeError \<and>
         snd (convert_dist_to_sparse_program protos truncated_program) = Inl IndexError"
  using get_prefetch_returns_tuple [OF assms(4,6,5)]
    convert_returns_iff [OF assms(1-4) assms(6) assms(5), of protos]
    untranspiled_program_raises [of protos] truncated_program_raises [of protos]
  by blast

text \<open>The trainer program satisfies the hypotheses of C10, and so does the trainer program
  without the declaration of \<^verbatim>\<open>out_b\<close>.\<close>

theorem convert_completes_witness:
  "distributed_lookup_table trainer_program = Some ''emb'' \<and>
   find_var (vars (global_block trainer_program)) ''emb'' =
     Some ((tensor_var ''emb'')\<lparr>persistable := True\<rparr>) \<and>
   first_pattern (map op_type (ops (global_block trainer_program))) 2 \<and>
   carries_slots (ops (global_block trainer_program)) 2 \<and>
   \<not> wrap_match (map op_type (ops (global_block trainer_program))) \<and>
   list_all (\<lambda>pr. declared (renamed_block (global_block trainer_program) ''emb''
                              ((tensor_var ''emb'')\<lparr>persistable := True\<rparr>)) (fst pr) \<and>
                  declared (renamed_block (global_block trainer_program) ''emb''
                              ((tensor_var ''emb'')\<lparr>persistable := True\<rparr>)) (snd pr))
     (removed_pairs trainer_program ''emb'' 2) \<and>
   returns_tuple (get_prefetch_op_tuples trainer_program) \<and>
   returns_program (snd (convert_dist_to_sparse_program core_protos trainer_program)) \<and>
   first_pattern (map op_type (ops (global_block unbound_program))) 2 \<and>
   carries_slots (ops (global_block unbound_program)) 2 \<and>
   \<not> wrap_match (map op_type (ops (global_block unbound_program))) \<and>
   \<not> returns_program (snd (convert_dist_to_sparse_program core_protos unbound_program))"
proof -
  let ?v = "(tensor_var ''emb'')\<lparr>persistable := True\<rparr>"
  have n: "''emb'' \<noteq> []" by simp
  have t: "distributed_lookup_table trainer_program = Some ''emb''"
    by (simp add: trainer_program_def)
  have v: "find_var (vars (global_block trainer_program)) ''emb'' = Some ?v" by code_simp
  note f = trainer_program_pattern
  have s: "carries_slots (ops (global_block trainer_program)) 2" by code_simp
  have w: "\<not> wrap_match (map op_type (ops (global_block trainer_program)))" by code_simp
  have d: "list_all (\<lambda>pr. declared (renamed_block (global_block trainer_program) ''emb'' ?v) (fst pr) \<and>
                  declared (renamed_block (global_block trainer_program) ''emb'' ?v) (snd pr))
     (removed_pairs trainer_program ''emb'' 2)"
    by code_simp
  have t': "distributed_lookup_table unbound_program = Some ''emb''"
    by (simp add: unbound_program_def trainer_program_def)
  have v': "find_var (vars (global_block unbound_program)) ''emb'' = Some ?v" by code_simp
  have f': "first_pattern (map op_type (ops (global_block unbound_program))) 2" by code_simp
  have s': "carries_slots (ops (global_block unbound_program)) 2" by code_simp
  have w': "\<not> wrap_match (map op_type (ops (global_block unbound_program)))" by code_simp
  have d': "\<not> list_all (\<lambda>pr. declared (renamed_block (global_block unbound_program) ''emb'' ?v) (fst pr) \<and>
                  declared (renamed_block (global_block unbound_program) ''emb'' ?v) (snd pr))
     (removed_pairs unbound_program ''emb'' 2)"
    by code_simp
  from convert_completes [OF t n v f s w, of core_protos]
    convert_completes [OF t' n v' f' s' w', of core_protos] t v f s w d f' s' w' d'
  show ?thesis by simp
qed

section \<open>Properties of the loaders\<close>

subsection \<open>Vocabulary\<close>

text \<open>The name \<^verbatim>\<open>"{}_{}".format(table, i)\<close> shared by the \<open>i\<close>-th temporary variable and the
  file it is loaded from, that variable, its load operator, the \<^verbatim>\<open>file_path\<close> attributes of
  the load operators of a program, and \<^verbatim>\<open>isinstance(program, Program)\<close>.\<close>

definition shard_name :: "string \<Rightarrow> nat \<Rightarrow> string" where
  "shard_name t i = t @ ''_'' @ str_of_nat i"

definition shard_var :: "Variable \<Rightarrow> nat \<Rightarrow> Variable" where
  "shard_var emb i =
     \<lparr>name = shard_name (name emb) i, shape = shape emb, dtype = dtype emb,
      vtype = SELECTED_ROWS, persistable = True\<rparr>"

definition shard_load :: "Variable \<Rightarrow> string \<Rightarrow> nat \<Rightarrow> Operator" where
  "shard_load emb lookup_table_dirname i =
     \<lparr>op_type = ''load'', inputs = [], outputs = [(''Out'', [shard_name (name emb) i])],
      attrs = [(''file_path'', AStr (path_join lookup_table_dirname (shard_name (name emb) i)))]\<rparr>"

definition load_file_paths :: "Program \<Rightarrow> string list" where
  "load_file_paths program =
     concat (map (\<lambda>opr. if op_type opr = ''load''
                          then (case map_of (attrs opr) ''file_path'' of
                                  Some (AStr f) \<Rightarrow> [f] | _ \<Rightarrow> [])
                          else [])
              (ops (global_block program)))"

definition is_Program :: "program_arg \<Rightarrow> bool" where
  "is_Program program = (case program of AProgram p \<Rightarrow> True | _ \<Rightarrow> False)"

subsection \<open>A checkpoint directory\<close>

text \<open>A parameter server program with persistable parameters, a gradient, a feed variable,
  temporaries and sliced variables; and a world with the checkpoint directory \<^verbatim>\<open>ckpt\<close>,
  whose subdirectory \<^verbatim>\<open>__lookup_table__\<close> lists the given entries and whose file
  \<^verbatim>\<open>__model__\<close> parses to that program.\<close>

definition persistable_var :: "string \<Rightarrow> Variable" where
  "persistable_var n = (tensor_var n)\<lparr>persistable := True\<rparr>"

definition pserver_program :: Program where
  "pserver_program =
     \<lparr>distributed_lookup_table = Some ''emb'', version = 0,
      global_block =
        \<lparr>vars = [persistable_var ''emb'', persistable_var ''fc_0.w_0'',
                 persistable_var ''fc_0.w_0@GRAD'',
                 (persistable_var ''feed'')\<lparr>vtype := FEED_MINIBATCH\<rparr>,
                 persistable_var ''fc_0.tmp_1'', persistable_var ''fc_0.w_0.block0'',
                 tensor_var ''ids_a''],
         ops = []\<rparr>,
      sub_blocks = [\<lparr>vars = [persistable_var ''fc_0.b_0'', persistable_var ''fc_0.b_0.trainer_0''],
                     ops = []\<rparr>]\<rparr>"

definition checkpoint_env :: "string list \<Rightarrow> Environment" where
  "checkpoint_env shards =
     \<lparr>isdir = (\<lambda>path. path \<in> set [''ckpt'', ''ckpt/__lookup_table__'']),
      exists = (\<lambda>path. path \<in> set ([''ckpt'', ''ckpt/__lookup_table__'', ''ckpt/__model__''] @
                                     map (path_join ''ckpt/__lookup_table__'') shards)),
      listdir = (\<lambda>path. if path = ''ckpt/__lookup_table__'' then Inr shards else Inl OSError),
      read_file = (\<lambda>path. if path = ''ckpt/__model__'' then Inr ''model'' else Inl IOError),
      parse_from_string = (\<lambda>s. if s = ''model'' then Inr pserver_program else Inl EnforceNotMet),
      is_program_version_supported = (\<lambda>v. v = 0),
      current_version = 0\<rparr>"

subsection \<open>Strings\<close>

lemma str_contains_sublist: "str_contains sub s \<longleftrightarrow> sublist sub s"
proof (induction s)
  case Nil
  then show ?case by simp
next
  case (Cons c cs)
  then show ?case by (cases sub) (simp_all add: sublist_code)
qed

lemma digit_char_inj:
  assumes "a < 10" "b < 10" "digit_char a = digit_char b"
  shows "a = b"
proof -
  from assms(3) have "of_char (char_of (48 + a) :: char) = (of_char (char_of (48 + b) :: char) :: nat)"
    by (simp add: digit_char_def)
  with assms(1,2) show ?thesis by simp
qed

lemma str_of_nat_not_Nil: "str_of_nat n \<noteq> []"
  by (subst str_of_nat.simps) simp

lemma str_of_nat_inj: "str_of_nat n = str_of_nat m \<Longrightarrow> n = m"
proof (induction n arbitrary: m rule: less_induct)
  case (less n)
  show ?case
  proof (cases "n < 10")
    case n: True
    show ?thesis
    proof (cases "m < 10")
      case True
      with n less.prems show ?thesis
        by (subst (asm) (1 2) str_of_nat.simps) (simp add: digit_char_inj)
    next
      case False
      with n less.prems have "[digit_char n] = str_of_nat (m div 10) @ [digit_char (m mod 10)]"
        by (subst (asm) (1 2) str_of_nat.simps) simp
      then show ?thesis using str_of_nat_not_Nil [of "m div 10"] by simp
    qed
  next
    case n: False
    show ?thesis
    proof (cases "m < 10")
      case True
      with n less.prems have "str_of_nat (n div 10) @ [digit_char (n mod 10)] = [digit_char m]"
        by (subst (asm) (1 2) str_of_nat.simps) simp
      then show ?thesis using str_of_nat_not_Nil [of "n div 10"] by simp
    next
      case False
      with n less.prems have e: "str_of_nat (n div 10) = str_of_nat (m div 10)"
        "digit_char (n mod 10) = digit_char (m mod 10)"
        by (subst (asm) (1 2) str_of_nat.simps, simp)+
      from n have "n div 10 < n" by simp
      from less.IH [OF this e(1)] have "n div 10 = m div 10" .
      moreover from e(2) have "n mod 10 = m mod 10" by (intro digit_char_inj) simp_all
      ultimately show ?thesis by (metis div_mult_mod_eq)
    qed
  qed
qed

lemma shard_name_inj: "shard_name t i = shard_name t j \<Longrightarrow> i = j"
  by (simp add: shard_name_def str_of_nat_inj)

lemma shard_name_neq: "shard_name t i \<noteq> t"
  by (simp add: shard_name_def)

subsection \<open>The program that loads the shards\<close>

lemma set_var_fresh: "name v \<notin> name ` set vs \<Longrightarrow> set_var vs v = vs @ [v]"
  by (induction vs) auto

lemma fold_set_var_fresh:
  assumes "distinct (map name ws)" "name ` set ws \<inter> name ` set vs = {}"
  shows "fold (\<lambda>v vs. set_var vs v) ws vs = vs @ ws"
  using assms
proof (induction ws arbitrary: vs)
  case Nil
  then show ?case by simp
next
  case (Cons w ws)
  from Cons.prems have w: "name w \<notin> name ` set vs" by auto
  have "fold (\<lambda>v vs. set_var vs v) ws (vs @ [w]) = (vs @ [w]) @ ws"
    using Cons.prems by (intro Cons.IH) auto
  then show ?case by (simp add: set_var_fresh [OF w])
qed

lemma load_shards_eq:
  "load_shards b emb dir i files sums =
     (b\<lparr>vars := fold (\<lambda>v vs. set_var vs v) (map (shard_var emb) [i ..< i + length files]) (vars b),
        ops := ops b @ map (shard_load emb dir) [i ..< i + length files]\<rparr>,
      sums @ map (shard_var emb) [i ..< i + length files])"
proof (induction files arbitrary: b i sums)
  case Nil
  then show ?case by simp
next
  case (Cons f files)
  have "i < i + length (f # files)" by simp
  then have "[i ..< i + length (f # files)] = i # [Suc i ..< i + length (f # files)]"
    by (rule upt_conv_Cons)
  moreover have "i + length (f # files) = Suc i + length files" by simp
  ultimately have u: "[i ..< i + length (f # files)] = i # [Suc i ..< Suc i + length files]"
    by (simp only:)
  show ?case
    unfolding u
    by (simp add: Cons.IH Let_def create_var_def append_op_def shard_var_def shard_name_def
        shard_load_def load_op_def)
qed

lemma shard_names: "map name (map (shard_var emb) is) = map (shard_name (name emb)) is"
  by (simp add: shard_var_def)

lemma shard_vars_distinct: "distinct (map name (map (shard_var emb) [0 ..< n]))"
proof -
  have "inj_on (shard_name (name emb)) (set [0 ..< n])"
    by (auto intro: inj_onI dest: shard_name_inj)
  then have "distinct (map (shard_name (name emb)) [0 ..< n])"
    by (simp add: distinct_map)
  then show ?thesis by (simp only: shard_names)
qed

lemma shard_vars_fresh:
  "name emb' = name emb \<Longrightarrow> name ` set (map (shard_var emb) [0 ..< n]) \<inter> name ` set [emb'] = {}"
  using shard_name_neq [of "name emb"] by (auto simp: shard_var_def) metis

text \<open>The program that is run when \<open>n\<close> entries are selected, \<open>n\<close> not zero.\<close>

definition shards_program :: "Environment \<Rightarrow> Variable \<Rightarrow> string \<Rightarrow> nat \<Rightarrow> Program" where
  "shards_program env emb0 dir n =
     (new_Program env)\<lparr>global_block :=
        \<lparr>vars = shard_var emb0 0\<lparr>name := name emb0\<rparr> # map (shard_var emb0) [0 ..< n],
         ops = map (shard_load emb0 dir) [0 ..< n] @
               [\<lparr>op_type = ''sum'', inputs = [(''X'', map (shard_name (name emb0)) [0 ..< n])],
                 outputs = [(''Out'', [name emb0])], attrs = []\<rparr>,
                \<lparr>op_type = ''delete_var'', inputs = [(''X'', map (shard_name (name emb0)) [0 ..< n])],
                 outputs = [], attrs = []\<rparr>]\<rparr>\<rparr>"

lemma shard_program_eq:
  "shard_program env emb0 dir files =
     (if files = [] then Inl EnforceNotMet
      else Inr (shards_program env emb0 dir (length files)))"
proof -
  let ?emb = "\<lparr>name = name emb0, shape = shape emb0, dtype = dtype emb0,
               vtype = SELECTED_ROWS, persistable = True\<rparr>"
  have e: "shard_var ?emb = shard_var emb0" "shard_load ?emb = shard_load emb0"
    by (auto simp: shard_var_def shard_load_def fun_eq_iff)
  have emb: "?emb = shard_var emb0 0\<lparr>name := name emb0\<rparr>" by (simp add: shard_var_def)
  have f: "fold (\<lambda>v vs. set_var vs v) (map (shard_var emb0) [0 ..< length files]) [?emb] =
      [?emb] @ map (shard_var emb0) [0 ..< length files]"
    by (intro fold_set_var_fresh shard_vars_distinct shard_vars_fresh) simp
  note n = shard_names [of emb0 "[0 ..< length files]"]
  show ?thesis
    unfolding shard_program_def Let_def load_shards_eq e
    using f n
    by (simp add: new_Program_def create_var_def append_op_def append_sum_op_def
        shards_program_def emb [symmetric])
qed

lemma load_file_paths_shards_program:
  "load_file_paths (shards_program env emb dir n) =
     map (\<lambda>i. path_join dir (shard_name (name emb) i)) [0 ..< n]"
proof -
  have "concat (map (\<lambda>opr. if op_type opr = ''load''
                          then (case map_of (attrs opr) ''file_path'' of
                                  Some (AStr f) \<Rightarrow> [f] | _ \<Rightarrow> [])
                          else []) (map (shard_load emb dir) is)) =
        map (\<lambda>i. path_join dir (shard_name (name emb) i)) is" for "is"
    by (induction "is") (simp_all add: shard_load_def)
  then show ?thesis
    by (simp add: load_file_paths_def shards_program_def)
qed

subsection \<open>The loaders on a valid directory\<close>

lemma load_persistable_vars_eq:
  "load_persistable_vars env executor dirname program lookup_table_vars =
     executor @ [load_vars_program env dirname
                   (filter (is_checkpoint_var (Some lookup_table_vars)) (list_vars program))]"
  by (simp add: load_persistable_vars_def load_vars_def run_def)

lemma increment_valid:
  assumes "isdir env dirname" "exists env lookup_table_var_path"
  shows "load_persistables_for_increment env dirname executor (AProgram p) lookup_table_var
           lookup_table_var_path =
     (case find_var (vars (global_block p)) lookup_table_var of
        None \<Rightarrow> (load_persistable_vars env executor dirname p [lookup_table_var], Inl ValueError)
      | Some emb_var \<Rightarrow>
          (load_persistable_vars env executor dirname p [lookup_table_var] @
             [(new_Program env)\<lparr>global_block :=
                 \<lparr>vars = [], ops = [load_op emb_var lookup_table_var_path]\<rparr>\<rparr>],
           Inr ()))"
  using assms
  by (simp add: load_persistables_for_increment_def load_lookup_table_var_def var_def run_def
      append_op_def new_Program_def split: option.splits)

lemma inference_program:
  assumes "isdir env dirname"
  shows "load_persistables_for_inference env dirname executor (AProgram p) t =
     (case find_var (vars (global_block p)) t of
        None \<Rightarrow> (load_persistable_vars env executor dirname p [t], Inl ValueError)
      | Some emb_var \<Rightarrow>
          (case listdir env (path_join dirname ''__lookup_table__'') of
             Inl e \<Rightarrow> (load_persistable_vars env executor dirname p [t], Inl e)
           | Inr names \<Rightarrow>
               if filter (sublist t) names = []
               then (load_persistable_vars env executor dirname p [t], Inl EnforceNotMet)
               else (load_persistable_vars env executor dirname p [t] @
                       [shards_program env emb_var (path_join dirname ''__lookup_table__'')
                          (length (filter (sublist t) names))],
                     Inr p)))"
proof -
  have "str_contains t = sublist t"
    by (rule ext) (rule str_contains_sublist)
  then have f: "filter (str_contains t) names = filter (sublist t) names" for names
    by simp
  show ?thesis
    using assms
    by (simp add: load_persistables_for_inference_def resolve_program_def
        load_lookup_table_vars_def getitem_def var_def run_def f shard_program_eq
        split: option.splits sum.splits)
qed

lemma inference_falsy:
  assumes "isdir env dirname"
    and "read_file env (path_join dirname ''__model__'') = Inr s"
    and "parse_from_string env s = Inr p"
  shows "load_persistables_for_inference env dirname executor FalsyObject t =
     (if is_program_version_supported env (version p)
      then load_persistables_for_inference env dirname executor (AProgram p) t
      else (executor, Inl ValueError))"
  using assms by (simp add: load_persistables_for_inference_def resolve_program_def)

subsection \<open>Claims on the loaders\<close>

text \<open>C4: on a valid call (an existing directory, an existing path, a Program whose global
  block holds the lookup table variable) \<^verbatim>\<open>load_persistables_for_increment\<close> runs two
  programs on the executor and returns None. The first loads from \<open>dirname\<close> the variables
  of the program that the checkpoint predicate accepts, which the lookup table variable is
  not; the second is a fresh program with the single operator load, whose output is the
  lookup table variable and whose \<^verbatim>\<open>file_path\<close> is \<open>lookup_table_var_path\<close>.\<close>

theorem increment_loads:
  assumes "isdir env dirname" "exists env lookup_table_var_path"
    and "find_var (vars (global_block p)) lookup_table_var = Some emb_var"
  shows "load_persistables_for_increment env dirname executor (AProgram p) lookup_table_var
           lookup_table_var_path =
     (executor @
        [load_vars_program env dirname
           (filter (is_checkpoint_var (Some [lookup_table_var])) (list_vars p)),
         (new_Program env)\<lparr>global_block :=
            \<lparr>vars = [],
             ops = [\<lparr>op_type = ''load'', inputs = [], outputs = [(''Out'', [lookup_table_var])],
                     attrs = [(''file_path'', AStr lookup_table_var_path)]\<rparr>]\<rparr>\<rparr>],
      Inr ()) \<and>
     \<not> is_checkpoint_var (Some [lookup_table_var]) emb_var"
proof -
  from assms(3) have n: "name emb_var = lookup_table_var" by (rule find_var_name)
  then have "\<not> is_checkpoint_var (Some [lookup_table_var]) emb_var"
    by (simp add: is_checkpoint_var_def is_valid_def)
  then show ?thesis
    by (simp add: increment_valid [OF assms(1,2)] assms(3) load_persistable_vars_eq load_op_def n)
qed

text \<open>The checkpoint directory and the parameter server program satisfy the hypotheses of C4.\<close>

theorem increment_loads_witness:
  "isdir (checkpoint_env [''emb_0'']) ''ckpt'' \<and>
   exists (checkpoint_env [''emb_0'']) ''ckpt/__lookup_table__/emb_0'' \<and>
   find_var (vars (global_block pserver_program)) ''emb'' = Some (persistable_var ''emb'') \<and>
   load_persistables_for_increment (checkpoint_env [''emb_0'']) ''ckpt'' [] (AProgram pserver_program)
       ''emb'' ''ckpt/__lookup_table__/emb_0'' =
     ([(new_Program (checkpoint_env [''emb_0'']))\<lparr>global_block :=
          \<lparr>vars = [persistable_var ''fc_0.w_0'', persistable_var ''fc_0.b_0''],
           ops = [load_op (persistable_var ''fc_0.w_0'') ''ckpt/fc_0.w_0'',
                  load_op (persistable_var ''fc_0.b_0'') ''ckpt/fc_0.b_0'']\<rparr>\<rparr>,
       (new_Program (checkpoint_env [''emb_0'']))\<lparr>global_block :=
          \<lparr>vars = [], ops = [load_op (persistable_var ''emb'') ''ckpt/__lookup_table__/emb_0'']\<rparr>\<rparr>],
      Inr ())"
proof -
  have a: "isdir (checkpoint_env [''emb_0'']) ''ckpt''" by (simp add: checkpoint_env_def)
  have b: "exists (checkpoint_env [''emb_0'']) ''ckpt/__lookup_table__/emb_0''" by code_simp
  have c: "find_var (vars (global_block pserver_program)) ''emb'' = Some (persistable_var ''emb'')"
    by code_simp
  have d: "load_vars_program (checkpoint_env [''emb_0'']) ''ckpt''
       (filter (is_checkpoint_var (Some [''emb''])) (list_vars pserver_program)) =
     (new_Program (checkpoint_env [''emb_0'']))\<lparr>global_block :=
          \<lparr>vars = [persistable_var ''fc_0.w_0'', persistable_var ''fc_0.b_0''],
           ops = [load_op (persistable_var ''fc_0.w_0'') ''ckpt/fc_0.w_0'',
                  load_op (persistable_var ''fc_0.b_0'') ''ckpt/fc_0.b_0'']\<rparr>\<rparr>"
    by code_simp
  from increment_loads [OF a b c, of "[]"] a b c show ?thesis
    by (simp add: d load_op_def persistable_var_def tensor_var_def)
qed

text \<open>C5, as stated, fails: when \<open>dirname\<close> is not a directory the check at line 293
  raises ValueError, nothing is scanned or run and nothing is returned; and when the program
  does not hold the table variable, \<^verbatim>\<open>Block.var\<close> at line 251 raises ValueError after the
  checkpoint variables have been loaded, before the directory is scanned.\<close>

theorem inference_loads_shards_counterexample:
  "\<not> isdir (checkpoint_env [''emb_0'']) ''nowhere'' \<and>
   load_persistables_for_inference (checkpoint_env [''emb_0'']) ''nowhere'' []
       (AProgram pserver_program) ''emb'' = ([], Inl ValueError) \<and>
   isdir (checkpoint_env [''emb_0'']) ''ckpt'' \<and>
   find_var (vars (global_block pserver_program)) ''embedding'' = None \<and>
   load_persistables_for_inference (checkpoint_env [''emb_0'']) ''ckpt'' []
       (AProgram pserver_program) ''embedding'' =
     ([(new_Program (checkpoint_env [''emb_0'']))\<lparr>global_block :=
          \<lparr>vars = [persistable_var ''emb'', persistable_var ''fc_0.w_0'', persistable_var ''fc_0.b_0''],
           ops = [load_op (persistable_var ''emb'') ''ckpt/emb'',
                  load_op (persistable_var ''fc_0.w_0'') ''ckpt/fc_0.w_0'',
                  load_op (persistable_var ''fc_0.b_0'') ''ckpt/fc_0.b_0'']\<rparr>\<rparr>],
      Inl ValueError)"
  by code_simp

text \<open>C5, amended: \<^verbatim>\<open>load_persistables_for_inference\<close>, given an existing directory, a
  Program whose global block holds the table variable, and a subdirectory
  \<^verbatim>\<open>__lookup_table__\<close> that can be listed and has at least one entry whose name contains the
  table's name, selects the entries whose name contains the table's name; after the
  checkpoint variables it runs a fresh program that holds a SELECTED\_ROWS variable with the
  table's name, shape and dtype, one persistable SELECTED\_ROWS temporary variable and one
  load operator for each selected entry, a sum operator from all temporaries to the table
  variable and a delete\_var operator on the temporaries; it returns the program it was
  given.\<close>

theorem inference_loads_shards:
  assumes "isdir env dirname"
    and "find_var (vars (global_block p)) t = Some emb_var"
    and "listdir env (path_join dirname ''__lookup_table__'') = Inr names"
    and "filter (sublist t) names \<noteq> []"
  shows "load_persistables_for_inference env dirname executor (AProgram p) t =
     (executor @
        [load_vars_program env dirname (filter (is_checkpoint_var (Some [t])) (list_vars p)),
         (new_Program env)\<lparr>global_block :=
            \<lparr>vars =
               \<lparr>name = t, shape = shape emb_var, dtype = dtype emb_var, vtype = SELECTED_ROWS,
                 persistable = True\<rparr> #
               map (\<lambda>i. \<lparr>name = t @ ''_'' @ str_of_nat i, shape = shape emb_var,
                          dtype = dtype emb_var, vtype = SELECTED_ROWS, persistable = True\<rparr>)
                 [0 ..< length (filter (sublist t) names)],
             ops =
               map (\<lambda>i. \<lparr>op_type = ''load'', inputs = [],
                          outputs = [(''Out'', [t @ ''_'' @ str_of_nat i])],
                          attrs = [(''file_path'',
                                    AStr (path_join (path_join dirname ''__lookup_table__'')
                                            (t @ ''_'' @ str_of_nat i)))]\<rparr>)
                 [0 ..< length (filter (sublist t) names)] @
               [\<lparr>op_type = ''sum'',
                 inputs = [(''X'', map (\<lambda>i. t @ ''_'' @ str_of_nat i)
                                    [0 ..< length (filter (sublist t) names)])],
                 outputs = [(''Out'', [t])], attrs = []\<rparr>,
                \<lparr>op_type = ''delete_var'',
                 inputs = [(''X'', map (\<lambda>i. t @ ''_'' @ str_of_nat i)
                                    [0 ..< length (filter (sublist t) names)])],
                 outputs = [], attrs = []\<rparr>]\<rparr>\<rparr>],
      Inr p)"
proof -
  from assms(2) have n: "name emb_var = t" by (rule find_var_name)
  have v: "shard_var emb_var = (\<lambda>i. \<lparr>name = t @ ''_'' @ str_of_nat i, shape = shape emb_var,
      dtype = dtype emb_var, vtype = SELECTED_ROWS, persistable = True\<rparr>)"
    by (simp add: shard_var_def shard_name_def n fun_eq_iff)
  have l: "shard_load emb_var dir = (\<lambda>i. \<lparr>op_type = ''load'', inputs = [],
      outputs = [(''Out'', [t @ ''_'' @ str_of_nat i])],
      attrs = [(''file_path'', AStr (path_join dir (t @ ''_'' @ str_of_nat i)))]\<rparr>)" for dir
    by (simp add: shard_load_def shard_name_def n fun_eq_iff)
  have s: "shard_name t = (\<lambda>i. t @ ''_'' @ str_of_nat i)"
    by (simp add: shard_name_def fun_eq_iff)
  show ?thesis
    by (simp add: inference_program [OF assms(1)] assms(2,3,4) shards_program_def
        load_persistable_vars_eq n v l s)
qed

text \<open>The checkpoint directory with two shards and one other entry satisfies the hypotheses
  of C5.\<close>

theorem inference_loads_shards_witness:
  "isdir (checkpoint_env [''emb_1'', ''fc_0.w_0'', ''emb_0'']) ''ckpt'' \<and>
   find_var (vars (global_block pserver_program)) ''emb'' = Some (persistable_var ''emb'') \<and>
   listdir (checkpoint_env [''emb_1'', ''fc_0.w_0'', ''emb_0'']) (path_join ''ckpt'' ''__lookup_table__'') =
     Inr [''emb_1'', ''fc_0.w_0'', ''emb_0''] \<and>
   filter (sublist ''emb'') [''emb_1'', ''fc_0.w_0'', ''emb_0''] = [''emb_1'', ''emb_0''] \<and>
   snd (load_persistables_for_inference (checkpoint_env [''emb_1'', ''fc_0.w_0'', ''emb_0'']) ''ckpt'' []
          (AProgram pserver_program) ''emb'') = Inr pserver_program \<and>
   map op_type (ops (global_block (last (fst
     (load_persistables_for_inference (checkpoint_env [''emb_1'', ''fc_0.w_0'', ''emb_0'']) ''ckpt'' []
          (AProgram pserver_program) ''emb''))))) = [''load'', ''load'', ''sum'', ''delete_var''] \<and>
   map name (vars (global_block (last (fst
     (load_persistables_for_inference (checkpoint_env [''emb_1'', ''fc_0.w_0'', ''emb_0'']) ''ckpt'' []
          (AProgram pserver_program) ''emb''))))) = [''emb'', ''emb_0'', ''emb_1'']"
proof -
  let ?env = "checkpoint_env [''emb_1'', ''fc_0.w_0'', ''emb_0'']"
  have a: "isdir ?env ''ckpt''" by (simp add: checkpoint_env_def)
  have b: "find_var (vars (global_block pserver_program)) ''emb'' = Some (persistable_var ''emb'')"
    by code_simp
  have j: "path_join ''ckpt'' ''__lookup_table__'' = ''ckpt/__lookup_table__''" by code_simp
  have c: "listdir ?env (path_join ''ckpt'' ''__lookup_table__'') = Inr [''emb_1'', ''fc_0.w_0'', ''emb_0'']"
    by (simp add: checkpoint_env_def j)
  have d: "filter (sublist ''emb'') [''emb_1'', ''fc_0.w_0'', ''emb_0''] = [''emb_1'', ''emb_0'']"
    by code_simp
  have d': "filter (sublist ''emb'') [''emb_1'', ''fc_0.w_0'', ''emb_0''] \<noteq> []"
    by (simp only: d) simp
  have e: "str_of_nat 0 = ''0''" "str_of_nat (Suc 0) = ''1''" by code_simp+
  have f: "[0 ..< 2] = [0, Suc 0]" by code_simp
  from inference_loads_shards [OF a b c d', of "[]"] a b c d
  show ?thesis by (simp add: e f)
qed

text \<open>C6, as stated, fails: with the entries \<^verbatim>\<open>emb_0\<close> and \<^verbatim>\<open>emb.meta\<close> both selected, the load
  operators read \<^verbatim>\<open>emb_0\<close> and \<^verbatim>\<open>emb_1\<close>; the second was not found by the scan and does not
  exist, and \<^verbatim>\<open>emb.meta\<close> is not read.\<close>

theorem inference_load_paths_counterexample:
  "isdir (checkpoint_env [''emb_0'', ''emb.meta'']) ''ckpt'' \<and>
   listdir (checkpoint_env [''emb_0'', ''emb.meta'']) (path_join ''ckpt'' ''__lookup_table__'') =
     Inr [''emb_0'', ''emb.meta''] \<and>
   filter (str_contains ''emb'') [''emb_0'', ''emb.meta''] = [''emb_0'', ''emb.meta''] \<and>
   load_file_paths (last (fst
     (load_persistables_for_inference (checkpoint_env [''emb_0'', ''emb.meta'']) ''ckpt'' []
          (AProgram pserver_program) ''emb''))) =
     [''ckpt/__lookup_table__/emb_0'', ''ckpt/__lookup_table__/emb_1''] \<and>
   map (path_join (path_join ''ckpt'' ''__lookup_table__'')) [''emb_0'', ''emb.meta''] =
     [''ckpt/__lookup_table__/emb_0'', ''ckpt/__lookup_table__/emb.meta''] \<and>
   \<not> exists (checkpoint_env [''emb_0'', ''emb.meta'']) ''ckpt/__lookup_table__/emb_1''"
  by code_simp

text \<open>C6, amended: when at least one entry is selected, the load operator appended for the
  \<open>i\<close>-th selected entry reads the file \<^verbatim>\<open>"{}_{}".format(table, i)\<close> of the
  \<^verbatim>\<open>__lookup_table__\<close> directory, whatever the entry is called; the set of the file paths
  read is the set of the shard files found when the selected entries are named
  \<^verbatim>\<open>table_0\<close>, ..., \<^verbatim>\<open>table_(n-1)\<close>, in any order.\<close>

theorem inference_load_paths:
  assumes "isdir env dirname"
    and "find_var (vars (global_block p)) t = Some emb_var"
    and "listdir env (path_join dirname ''__lookup_table__'') = Inr names"
    and "filter (sublist t) names \<noteq> []"
  shows "load_file_paths (last (fst (load_persistables_for_inference env dirname executor (AProgram p) t))) =
           map (\<lambda>i. path_join (path_join dirname ''__lookup_table__'') (t @ ''_'' @ str_of_nat i))
             [0 ..< length (filter (sublist t) names)] \<and>
         (set (filter (sublist t) names) =
            set (map (\<lambda>i. t @ ''_'' @ str_of_nat i) [0 ..< length (filter (sublist t) names)]) \<longrightarrow>
          set (load_file_paths
                 (last (fst (load_persistables_for_inference env dirname executor (AProgram p) t)))) =
            set (map (path_join (path_join dirname ''__lookup_table__'')) (filter (sublist t) names)))"
proof -
  from assms(2) have n: "name emb_var = t" by (rule find_var_name)
  have s: "shard_name t = (\<lambda>i. t @ ''_'' @ str_of_nat i)"
    by (simp add: shard_name_def fun_eq_iff)
  have a: "load_file_paths (last (fst (load_persistables_for_inference env dirname executor (AProgram p) t))) =
      map (\<lambda>i. path_join (path_join dirname ''__lookup_table__'') (t @ ''_'' @ str_of_nat i))
        [0 ..< length (filter (sublist t) names)]"
    by (simp add: inference_program [OF assms(1)] assms(2,3,4) load_file_paths_shards_program n s)
  have "set (map (\<lambda>i. path_join (path_join dirname ''__lookup_table__'') (t @ ''_'' @ str_of_nat i))
        [0 ..< length (filter (sublist t) names)]) =
      path_join (path_join dirname ''__lookup_table__'') `
        set (map (\<lambda>i. t @ ''_'' @ str_of_nat i) [0 ..< length (filter (sublist t) names)])"
    by (simp add: image_image)
  with a show ?thesis by (simp only: set_map) simp
qed

text \<open>The checkpoint directory with the shards \<^verbatim>\<open>emb_1\<close> and \<^verbatim>\<open>emb_0\<close> satisfies the
  hypotheses of C6.\<close>

theorem inference_load_paths_witness:
  "isdir (checkpoint_env [''emb_1'', ''fc_0.w_0'', ''emb_0'']) ''ckpt'' \<and>
   find_var (vars (global_block pserver_program)) ''emb'' = Some (persistable_var ''emb'') \<and>
   listdir (checkpoint_env [''emb_1'', ''fc_0.w_0'', ''emb_0'']) (path_join ''ckpt'' ''__lookup_table__'') =
     Inr [''emb_1'', ''fc_0.w_0'', ''emb_0''] \<and>
   filter (sublist ''emb'') [''emb_1'', ''fc_0.w_0'', ''emb_0''] = [''emb_1'', ''emb_0''] \<and>
   set [''emb_1'', ''emb_0''] = set (map (\<lambda>i. ''emb'' @ ''_'' @ str_of_nat i) [0 ..< 2]) \<and>
   load_file_paths (last (fst
     (load_persistables_for_inference (checkpoint_env [''emb_1'', ''fc_0.w_0'', ''emb_0'']) ''ckpt'' []
          (AProgram pserver_program) ''emb''))) =
     [''ckpt/__lookup_table__/emb_0'', ''ckpt/__lookup_table__/emb_1''] \<and>
   set (load_file_paths (last (fst
     (load_persistables_for_inference (checkpoint_env [''emb_1'', ''fc_0.w_0'', ''emb_0'']) ''ckpt'' []
          (AProgram pserver_program) ''emb'')))) =
     set (map (path_join (path_join ''ckpt'' ''__lookup_table__'')) [''emb_1'', ''emb_0''])"
proof -
  let ?env = "checkpoint_env [''emb_1'', ''fc_0.w_0'', ''emb_0'']"
  have a: "isdir ?env ''ckpt''" by (simp add: checkpoint_env_def)
  have b: "find_var (vars (global_block pserver_program)) ''emb'' = Some (persistable_var ''emb'')"
    by code_simp
  have j: "path_join ''ckpt'' ''__lookup_table__'' = ''ckpt/__lookup_table__''" by code_simp
  have c: "listdir ?env (path_join ''ckpt'' ''__lookup_table__'') = Inr [''emb_1'', ''fc_0.w_0'', ''emb_0'']"
    by (simp add: checkpoint_env_def j)
  have d: "filter (sublist ''emb'') [''emb_1'', ''fc_0.w_0'', ''emb_0''] = [''emb_1'', ''emb_0'']"
    by code_simp
  have e: "map (\<lambda>i. ''emb'' @ ''_'' @ str_of_nat i) [0 ..< length [''emb_1'', ''emb_0'']] =
      [''emb_0'', ''emb_1'']"
    by code_simp
  have f: "map (\<lambda>i. path_join (path_join ''ckpt'' ''__lookup_table__'') (''emb'' @ ''_'' @ str_of_nat i))
      [0 ..< length [''emb_1'', ''emb_0'']] =
      [''ckpt/__lookup_table__/emb_0'', ''ckpt/__lookup_table__/emb_1'']"
    by code_simp
  have g: "set [''emb_1'', ''emb_0''] = set [''emb_0'', ''emb_1'']" by auto
  have d': "filter (sublist ''emb'') [''emb_1'', ''fc_0.w_0'', ''emb_0''] \<noteq> []"
    by (simp only: d) simp
  from inference_load_paths [OF a b c d', of "[]"]
  have "load_file_paths (last (fst
     (load_persistables_for_inference ?env ''ckpt'' [] (AProgram pserver_program) ''emb''))) =
     [''ckpt/__lookup_table__/emb_0'', ''ckpt/__lookup_table__/emb_1''] \<and>
   set (load_file_paths (last (fst
     (load_persistables_for_inference ?env ''ckpt'' [] (AProgram pserver_program) ''emb'')))) =
     set (map (path_join (path_join ''ckpt'' ''__lookup_table__'')) [''emb_1'', ''emb_0''])"
    unfolding d e f using g by blast
  moreover have "map (\<lambda>i. ''emb'' @ ''_'' @ str_of_nat i) [0 ..< 2] = [''emb_0'', ''emb_1'']"
    by code_simp
  then have "set [''emb_1'', ''emb_0''] = set (map (\<lambda>i. ''emb'' @ ''_'' @ str_of_nat i) [0 ..< 2])"
    using g by (simp only:)
  ultimately show ?thesis using a b c d by blast
qed

text \<open>C7, as stated, fails: with a falsy program and a \<open>dirname\<close> that is not a directory,
  ValueError is raised and no file is read; and with a model of a supported version that does
  not hold the table variable, ValueError is raised as well.\<close>

theorem inference_parses_model_counterexample:
  "\<not> isdir (checkpoint_env [''emb_0'']) ''nowhere'' \<and>
   read_file (checkpoint_env [''emb_0'']) (path_join ''nowhere'' ''__model__'') = Inl IOError \<and>
   load_persistables_for_inference (checkpoint_env [''emb_0'']) ''nowhere'' [] FalsyObject ''emb'' =
     ([], Inl ValueError) \<and>
   isdir (checkpoint_env [''emb_0'']) ''ckpt'' \<and>
   read_file (checkpoint_env [''emb_0'']) (path_join ''ckpt'' ''__model__'') = Inr ''model'' \<and>
   parse_from_string (checkpoint_env [''emb_0'']) ''model'' = Inr pserver_program \<and>
   is_program_version_supported (checkpoint_env [''emb_0'']) (version pserver_program) \<and>
   snd (load_persistables_for_inference (checkpoint_env [''emb_0'']) ''ckpt'' [] FalsyObject ''embedding'') =
     Inl ValueError"
  by code_simp

text \<open>C7, amended: when \<^verbatim>\<open>load_persistables_for_inference\<close> is called with a falsy program
  and \<open>dirname\<close> is a directory whose file \<^verbatim>\<open>__model__\<close> can be read and parses to a Program,
  then ValueError is raised, before anything is loaded, if the version of the parsed program
  is unsupported; otherwise the call goes on as a call with the parsed program: its
  checkpoint variables are loaded first, and what is returned, when the call returns, is the
  parsed program.\<close>

theorem inference_parses_model:
  assumes "isdir env dirname"
    and "read_file env (path_join dirname ''__model__'') = Inr s"
    and "parse_from_string env s = Inr p"
  shows "(\<not> is_program_version_supported env (version p) \<longrightarrow>
            load_persistables_for_inference env dirname executor FalsyObject t =
              (executor, Inl ValueError)) \<and>
         (is_program_version_supported env (version p) \<longrightarrow>
            load_persistables_for_inference env dirname executor FalsyObject t =
              load_persistables_for_inference env dirname executor (AProgram p) t \<and>
            fst (load_persistables_for_inference env dirname executor FalsyObject t) \<noteq> executor \<and>
            hd (drop (length executor)
                  (fst (load_persistables_for_inference env dirname executor FalsyObject t))) =
              load_vars_program env dirname (filter (is_checkpoint_var (Some [t])) (list_vars p)) \<and>
            (\<forall>r. snd (load_persistables_for_inference env dirname executor FalsyObject t) = Inr r
                  \<longrightarrow> r = p))"
proof -
  have "fst (load_persistables_for_inference env dirname executor (AProgram p) t) \<noteq> executor \<and>
        hd (drop (length executor)
              (fst (load_persistables_for_inference env dirname executor (AProgram p) t))) =
          load_vars_program env dirname (filter (is_checkpoint_var (Some [t])) (list_vars p)) \<and>
        (\<forall>r. snd (load_persistables_for_inference env dirname executor (AProgram p) t) = Inr r
              \<longrightarrow> r = p)"
    by (auto simp: inference_program [OF assms(1)] load_persistable_vars_eq
        split: option.splits sum.splits)
  then show ?thesis by (simp add: inference_falsy [OF assms])
qed

text \<open>The checkpoint directory satisfies the hypotheses of C7, with a framework that supports
  the version of the model and with one that does not.\<close>

theorem inference_parses_model_witness:
  "isdir (checkpoint_env [''emb_0'']) ''ckpt'' \<and>
   read_file (checkpoint_env [''emb_0'']) (path_join ''ckpt'' ''__model__'') = Inr ''model'' \<and>
   parse_from_string (checkpoint_env [''emb_0'']) ''model'' = Inr pserver_program \<and>
   is_program_version_supported (checkpoint_env [''emb_0'']) (version pserver_program) \<and>
   load_persistables_for_inference (checkpoint_env [''emb_0'']) ''ckpt'' [] FalsyObject ''emb'' =
     load_persistables_for_inference (checkpoint_env [''emb_0'']) ''ckpt'' [] (AProgram pserver_program) ''emb'' \<and>
   snd (load_persistables_for_inference (checkpoint_env [''emb_0'']) ''ckpt'' [] FalsyObject ''emb'') =
     Inr pserver_program \<and>
   \<not> is_program_version_supported
       ((checkpoint_env [''emb_0''])\<lparr>is_program_version_supported := (\<lambda>v. 1 \<le> v)\<rparr>)
       (version pserver_program) \<and>
   load_persistables_for_inference
       ((checkpoint_env [''emb_0''])\<lparr>is_program_version_supported := (\<lambda>v. 1 \<le> v)\<rparr>)
       ''ckpt'' [] FalsyObject ''emb'' = ([], Inl ValueError)"
proof -
  let ?env = "checkpoint_env [''emb_0'']"
  let ?old = "?env\<lparr>is_program_version_supported := (\<lambda>v. 1 \<le> v)\<rparr>"
  have a: "isdir ?env ''ckpt''" "isdir ?old ''ckpt''" by (simp_all add: checkpoint_env_def)
  have j: "path_join ''ckpt'' ''__model__'' = ''ckpt/__model__''" by code_simp
  have b: "read_file ?env (path_join ''ckpt'' ''__model__'') = Inr ''model''"
    "read_file ?old (path_join ''ckpt'' ''__model__'') = Inr ''model''"
    by (simp_all add: checkpoint_env_def j)
  have c: "parse_from_string ?env ''model'' = Inr pserver_program"
    "parse_from_string ?old ''model'' = Inr pserver_program"
    by (simp_all add: checkpoint_env_def)
  have d: "is_program_version_supported ?env (version pserver_program)"
    "\<not> is_program_version_supported ?old (version pserver_program)"
    by (simp_all add: checkpoint_env_def pserver_program_def)
  have e: "snd (load_persistables_for_inference ?env ''ckpt'' [] (AProgram pserver_program) ''emb'') =
      Inr pserver_program"
    by code_simp
  from inference_parses_model [OF a(1) b(1) c(1), of "[]" "''emb''"]
    inference_parses_model [OF a(2) b(2) c(2), of "[]" "''emb''"] a b c d e
  show ?thesis by simp
qed

text \<open>C8, as stated, fails: with an existing directory, an existing path and a Program, but
  a lookup table variable that the program does not hold, ValueError is raised after the
  checkpoint variables have been loaded.\<close>

theorem increment_raises_counterexample:
  "isdir (checkpoint_env [''emb_0'']) ''ckpt'' \<and>
   exists (checkpoint_env [''emb_0'']) ''ckpt/__lookup_table__/emb_0'' \<and>
   is_Program (AProgram pserver_program) \<and>
   load_persistables_for_increment (checkpoint_env [''emb_0'']) ''ckpt'' [] (AProgram pserver_program)
       ''embedding'' ''ckpt/__lookup_table__/emb_0'' =
     ([(new_Program (checkpoint_env [''emb_0'']))\<lparr>global_block :=
          \<lparr>vars = [persistable_var ''emb'', persistable_var ''fc_0.w_0'', persistable_var ''fc_0.b_0''],
           ops = [load_op (persistable_var ''emb'') ''ckpt/emb'',
                  load_op (persistable_var ''fc_0.w_0'') ''ckpt/fc_0.w_0'',
                  load_op (persistable_var ''fc_0.b_0'') ''ckpt/fc_0.b_0'']\<rparr>\<rparr>],
      Inl ValueError)"
  by code_simp

text \<open>C8, amended: \<^verbatim>\<open>load_persistables_for_increment\<close> raises ValueError when \<open>dirname\<close> is
  not an existing directory, or \<open>lookup_table_var_path\<close> does not exist, or \<open>program\<close> is not
  a Program, and then nothing has been run on the executor. When the three checks pass, it
  raises ValueError exactly when the lookup table variable is not a variable of the program's
  global block, after the checkpoint variables have been loaded; otherwise it returns None.\<close>

theorem increment_raises:
  "(\<not> isdir env dirname \<or> \<not> exists env path \<or> \<not> is_Program program \<longrightarrow>
      load_persistables_for_increment env dirname executor program t path =
        (executor, Inl ValueError)) \<and>
   (isdir env dirname \<and> exists env path \<longrightarrow>
      (snd (load_persistables_for_increment env dirname executor (AProgram p) t path) = Inl ValueError
         \<longleftrightarrow> \<not> declared (global_block p) t) \<and>
      (declared (global_block p) t \<longrightarrow>
         snd (load_persistables_for_increment env dirname executor (AProgram p) t path) = Inr ()) \<and>
      (\<not> declared (global_block p) t \<longrightarrow>
         fst (load_persistables_for_increment env dirname executor (AProgram p) t path) =
           load_persistable_vars env executor dirname p [t]))"
proof -
  have "load_persistables_for_increment env dirname executor program t path =
      (executor, Inl ValueError)"
    if "\<not> isdir env dirname \<or> \<not> exists env path \<or> \<not> is_Program program"
    using that
    by (cases program) (auto simp: load_persistables_for_increment_def is_Program_def)
  moreover have "(snd (load_persistables_for_increment env dirname executor (AProgram p) t path) = Inl ValueError
         \<longleftrightarrow> \<not> declared (global_block p) t) \<and>
      (declared (global_block p) t \<longrightarrow>
         snd (load_persistables_for_increment env dirname executor (AProgram p) t path) = Inr ()) \<and>
      (\<not> declared (global_block p) t \<longrightarrow>
         fst (load_persistables_for_increment env dirname executor (AProgram p) t path) =
           load_persistable_vars env executor dirname p [t])"
    if "isdir env dirname" "exists env path"
    by (auto simp: increment_valid [OF that] declared_def split: option.splits)
  ultimately show ?thesis by blast
qed

text \<open>A path that is no directory satisfies the first hypothesis of C8, the checkpoint
  directory the second.\<close>

theorem increment_raises_witness:
  "\<not> isdir (checkpoint_env [''emb_0'']) ''nowhere'' \<and>
   load_persistables_for_increment (checkpoint_env [''emb_0'']) ''nowhere'' [] (AProgram pserver_program)
       ''emb'' ''ckpt/__lookup_table__/emb_0'' = ([], Inl ValueError) \<and>
   isdir (checkpoint_env [''emb_0'']) ''ckpt'' \<and>
   exists (checkpoint_env [''emb_0'']) ''ckpt/__lookup_table__/emb_0'' \<and>
   declared (global_block pserver_program) ''emb'' \<and>
   snd (load_persistables_for_increment (checkpoint_env [''emb_0'']) ''ckpt'' [] (AProgram pserver_program)
       ''emb'' ''ckpt/__lookup_table__/emb_0'') = Inr () \<and>
   \<not> declared (global_block pserver_program) ''embedding'' \<and>
   snd (load_persistables_for_increment (checkpoint_env [''emb_0'']) ''ckpt'' [] (AProgram pserver_program)
       ''embedding'' ''ckpt/__lookup_table__/emb_0'') = Inl ValueError \<and>
   fst (load_persistables_for_increment (checkpoint_env [''emb_0'']) ''ckpt'' [] (AProgram pserver_program)
       ''embedding'' ''ckpt/__lookup_table__/emb_0'') =
     load_persistable_vars (checkpoint_env [''emb_0'']) [] ''ckpt'' pserver_program [''embedding'']"
proof -
  have a: "\<not> isdir (checkpoint_env [''emb_0'']) ''nowhere''" by (simp add: checkpoint_env_def)
  have b: "isdir (checkpoint_env [''emb_0'']) ''ckpt''" by (simp add: checkpoint_env_def)
  have c: "exists (checkpoint_env [''emb_0'']) ''ckpt/__lookup_table__/emb_0''" by code_simp
  have d: "declared (global_block pserver_program) ''emb''" by code_simp
  have e: "\<not> declared (global_block pserver_program) ''embedding''" by code_simp
  from increment_raises [of "checkpoint_env [''emb_0'']" "''nowhere''" "''ckpt/__lookup_table__/emb_0''"
      "AProgram pserver_program" "[]" "''emb''" pserver_program]
    increment_raises [of "checkpoint_env [''emb_0'']" "''ckpt''" "''ckpt/__lookup_table__/emb_0''"
      "AProgram pserver_program" "[]" "''emb''" pserver_program]
    increment_raises [of "checkpoint_env [''emb_0'']" "''ckpt''" "''ckpt/__lookup_table__/emb_0''"
      "AProgram pserver_program" "[]" "''embedding''" pserver_program]
    a b c d e
  show ?thesis by simp
qed

text \<open>C9: the predicate that both loaders pass to \<^verbatim>\<open>io.load_vars\<close> accepts a variable exactly
  when it is persistable, its type is none of FEED\_MINIBATCH, FETCH\_LIST and RAW, its name
  contains none of \<^verbatim>\<open>@GRAD\<close>, \<^verbatim>\<open>.trainer_\<close>, \<^verbatim>\<open>.block\<close> and \<^verbatim>\<open>tmp_\<close>, and its name is not in
  the list of excluded lookup table variables; the load operators of the program run for the
  checkpoint directory are those of the accepted variables.\<close>

theorem checkpoint_predicate:
  "(is_checkpoint_var (Some lookup_table_vars) v \<longleftrightarrow>
      persistable v \<and> vtype v \<noteq> FEED_MINIBATCH \<and> vtype v \<noteq> FETCH_LIST \<and> vtype v \<noteq> RAW \<and>
      \<not> sublist ''@GRAD'' (name v) \<and> \<not> sublist ''.trainer_'' (name v) \<and>
      \<not> sublist ''.block'' (name v) \<and> \<not> sublist ''tmp_'' (name v) \<and>
      name v \<notin> set lookup_table_vars) \<and>
   ops (global_block (last (load_persistable_vars env executor dirname program lookup_table_vars))) =
     map (\<lambda>v. load_op v (path_join dirname (name v)))
       (filter (is_checkpoint_var (Some lookup_table_vars)) (list_vars program))"
  by (auto simp: is_checkpoint_var_def is_valid_def str_contains_sublist load_persistable_vars_eq
      load_vars_program_def)

text \<open>The predicate on variables of the parameter server program.\<close>

theorem checkpoint_predicate_witness:
  "\<not> is_checkpoint_var (Some [''emb'']) (persistable_var ''emb'') \<and>
   is_checkpoint_var (Some [''emb'']) (persistable_var ''fc_0.w_0'') \<and>
   \<not> is_checkpoint_var (Some [''emb'']) (persistable_var ''fc_0.w_0@GRAD'') \<and>
   ops (global_block (last (load_persistable_vars (checkpoint_env []) [] ''ckpt'' pserver_program [''emb'']))) =
     [load_op (persistable_var ''fc_0.w_0'') ''ckpt/fc_0.w_0'',
      load_op (persistable_var ''fc_0.b_0'') ''ckpt/fc_0.b_0'']"
proof -
  have s: "sublist ''@GRAD'' ''fc_0.w_0@GRAD''" "\<not> sublist ''@GRAD'' ''fc_0.w_0''"
    "\<not> sublist ''.trainer_'' ''fc_0.w_0''" "\<not> sublist ''.block'' ''fc_0.w_0''"
    "\<not> sublist ''tmp_'' ''fc_0.w_0''"
    by code_simp+
  have f: "map (\<lambda>v. load_op v (path_join ''ckpt'' (name v)))
       (filter (is_checkpoint_var (Some [''emb''])) (list_vars pserver_program)) =
     [load_op (persistable_var ''fc_0.w_0'') ''ckpt/fc_0.w_0'',
      load_op (persistable_var ''fc_0.b_0'') ''ckpt/fc_0.b_0'']"
    by code_simp
  from checkpoint_predicate [of "[''emb'']" "persistable_var ''emb''" "checkpoint_env []" "[]" "''ckpt''" pserver_program]
    checkpoint_predicate [of "[''emb'']" "persistable_var ''fc_0.w_0''"]
    checkpoint_predicate [of "[''emb'']" "persistable_var ''fc_0.w_0@GRAD''"]
  show ?thesis
    by (simp add: s f persistable_var_def tensor_var_def)
qed

end
